theory Spec2Isabelle
  imports Main "HOL-Library.Word"
begin

unbundle bit_operations_syntax

section \<open>Data model (package pagerduty)\<close>

text \<open>
  Go strings and byte slices are sequences of bytes: both are modelled as \<open>string\<close>
  (a list of 8-bit characters).  A \<open>time.Time\<close> is an abstract instant; the zero
  value \<open>time.Time{}\<close> is \<open>0\<close>.  Parsing and formatting instants is left to the
  standard library (record \<open>stdlib\<close> below).  Go's \<open>int\<close> is 64 bits wide on every
  platform the plugin is built for; the only place that can exceed the range is JSON
  decoding, which checks it.
\<close>

type_synonym time = int

record User =
  usr_ID :: string
  usr_Name :: string
  usr_Email :: string

record Service =
  svc_ID :: string
  svc_Name :: string

record EscalationPolicy =
  esc_ID :: string
  esc_Name :: string
  esc_HTMLURL :: string

record Assignment =
  asg_Assignee :: User
  asg_At :: time

record Incident =
  inc_ID :: string
  inc_IncidentNumber :: int
  inc_Title :: string
  inc_Description :: string
  inc_Status :: string
  inc_Urgency :: string
  inc_CreatedAt :: time
  inc_Service :: Service
  inc_Assignments :: "Assignment list"
  inc_LastStatusChangeBy :: User
  inc_LastStatusChangeAt :: time
  inc_AlertCount :: int
  inc_HTMLURL :: string
  inc_EscalationPolicy :: EscalationPolicy

record V3Reference =
  ref_HTMLURL :: string
  ref_ID :: string
  ref_Self :: string
  ref_Summary :: string
  ref_Type :: string

record V3Event =
  ev_ID :: string
  ev_EventType :: string
  ev_ResourceType :: string
  ev_OccurredAt :: string
  ev_Agent :: V3Reference
  ev_Data :: Incident

record V3WebhookPayload =
  v3_Event :: V3Event

text \<open>
  Of \<open>WebhookMessage\<close> the fields \<open>CreatedOn\<close>, \<open>LogEntries\<close> and \<open>Data\<close> are never
  written nor read by the plugin; the model keeps the three fields the code uses.
\<close>

record WebhookMessage =
  msg_ID :: string
  msg_Event :: string
  msg_Incident :: Incident

record PostAttachment =
  att_ID :: string
  att_PostID :: string
  att_ChannelID :: string
  att_Incident :: Incident

record IncidentActionPayload =
  act_IncidentID :: string
  act_Action :: string
  act_UserID :: string
  act_AssigneeID :: string

definition zeroUser :: User where
  "zeroUser = \<lparr>usr_ID = [], usr_Name = [], usr_Email = []\<rparr>"

definition zeroService :: Service where
  "zeroService = \<lparr>svc_ID = [], svc_Name = []\<rparr>"

definition zeroEscalationPolicy :: EscalationPolicy where
  "zeroEscalationPolicy = \<lparr>esc_ID = [], esc_Name = [], esc_HTMLURL = []\<rparr>"

definition zeroAssignment :: Assignment where
  "zeroAssignment = \<lparr>asg_Assignee = zeroUser, asg_At = 0\<rparr>"

definition zeroIncident :: Incident where
  "zeroIncident =
     \<lparr>inc_ID = [], inc_IncidentNumber = 0, inc_Title = [], inc_Description = [],
      inc_Status = [], inc_Urgency = [], inc_CreatedAt = 0, inc_Service = zeroService,
      inc_Assignments = [], inc_LastStatusChangeBy = zeroUser, inc_LastStatusChangeAt = 0,
      inc_AlertCount = 0, inc_HTMLURL = [], inc_EscalationPolicy = zeroEscalationPolicy\<rparr>"

definition zeroV3Reference :: V3Reference where
  "zeroV3Reference =
     \<lparr>ref_HTMLURL = [], ref_ID = [], ref_Self = [], ref_Summary = [], ref_Type = []\<rparr>"

definition zeroV3Event :: V3Event where
  "zeroV3Event =
     \<lparr>ev_ID = [], ev_EventType = [], ev_ResourceType = [], ev_OccurredAt = [],
      ev_Agent = zeroV3Reference, ev_Data = zeroIncident\<rparr>"

definition zeroV3WebhookPayload :: V3WebhookPayload where
  "zeroV3WebhookPayload = \<lparr>v3_Event = zeroV3Event\<rparr>"

definition zeroIncidentActionPayload :: IncidentActionPayload where
  "zeroIncidentActionPayload =
     \<lparr>act_IncidentID = [], act_Action = [], act_UserID = [], act_AssigneeID = []\<rparr>"

section \<open>Constants (server/pagerduty.go, server/client)\<close>

definition ActionAcknowledge :: string where "ActionAcknowledge = ''acknowledge''"
definition ActionResolve :: string where "ActionResolve = ''resolve''"
definition ActionReassign :: string where "ActionReassign = ''reassign''"

definition EventIncidentTriggered :: string where
  "EventIncidentTriggered = ''incident.triggered''"
definition EventIncidentAcknowledged :: string where
  "EventIncidentAcknowledged = ''incident.acknowledged''"
definition EventIncidentResolved :: string where
  "EventIncidentResolved = ''incident.resolved''"
definition EventIncidentReassigned :: string where
  "EventIncidentReassigned = ''incident.reassigned''"
definition EventIncidentStatusUpdated :: string where
  "EventIncidentStatusUpdated = ''incident.status_update_published''"

definition KeyIncidentAttachments :: string where
  "KeyIncidentAttachments = ''incident_attachments:''"

definition StatusTriggered :: string where "StatusTriggered = ''triggered''"
definition StatusAcknowledged :: string where "StatusAcknowledged = ''acknowledged''"
definition StatusResolved :: string where "StatusResolved = ''resolved''"

definition pagerDutyAPIBaseURL :: string where
  "pagerDutyAPIBaseURL = ''https://api.pagerduty.com''"
definition incidentsEndpoint :: string where "incidentsEndpoint = ''/incidents''"
definition usersEndpoint :: string where "usersEndpoint = ''/users''"

section \<open>Standard library and JSON decoding\<close>

text \<open>
  A Go \<open>error\<close> is modelled by its message; a nil error is \<open>None\<close>, and a function
  returning \<open>(T, error)\<close> returns \<open>error + T\<close> with \<open>Inl\<close> the error.
\<close>

type_synonym error = string

text \<open>
  A parsed JSON document.  \<open>JInt\<close> is a number literal without fraction and exponent,
  \<open>JFloat\<close> any other number literal (kept as written).  Object members keep their
  order, and duplicate keys are possible.
\<close>

datatype json =
    JNull
  | JBool bool
  | JInt int
  | JFloat string
  | JStr string
  | JArr "json list"
  | JObj "(string \<times> json) list"

text \<open>
  The functions of the Go standard library and of \<open>golang.org/x/text\<close> that the plugin
  calls and whose code is not part of the repository are parameters of the model:
  \<^item> \<open>titleCase\<close>: \<open>cases.Title(language.English).String\<close>;
  \<^item> \<open>formatRFC3339\<close>, \<open>parseRFC3339\<close>: \<open>Time.Format(time.RFC3339)\<close> and the parsing done
    by \<open>Time.UnmarshalJSON\<close>;
  \<^item> \<open>jsonUnmarshal\<close>: the syntax check and scan of \<open>json.Unmarshal\<close> (the whole input is
    one JSON value), \<open>jsonDecoder\<close>: the scan of \<open>json.NewDecoder(r).Decode\<close> (the first
    JSON value of the stream); \<open>None\<close> is a syntax error (or an empty stream);
  \<^item> \<open>equalFold\<close>: \<open>strings.EqualFold\<close>;
  \<^item> \<open>urlParse\<close>: whether \<open>http.NewRequest\<close> accepts the URL;
  \<^item> \<open>hmacSHA256\<close>: \<open>hmac.New(sha256.New, key)\<close>, \<open>Write(message)\<close>, \<open>Sum(nil)\<close>.
\<close>

record stdlib =
  titleCase :: "string \<Rightarrow> string"
  formatRFC3339 :: "time \<Rightarrow> string"
  parseRFC3339 :: "string \<Rightarrow> time option"
  jsonUnmarshal :: "string \<Rightarrow> json option"
  jsonDecoder :: "string \<Rightarrow> json option"
  equalFold :: "string \<Rightarrow> string \<Rightarrow> bool"
  urlParse :: "string \<Rightarrow> bool"
  hmacSHA256 :: "string \<Rightarrow> string \<Rightarrow> 8 word list"

text \<open>
  encoding/json matches an object key to a struct field by the field's tag, exactly or,
  failing that, under Unicode simple case folding.  All tags of the plugin's structs are
  lower-case ASCII, and the only characters outside ASCII that fold to an ASCII letter
  are U+017F (to s; UTF-8 C5 BF) and U+212A (to k; UTF-8 E2 84 AA).  So a key names the
  field with tag \<open>t\<close> exactly when \<open>foldKey key = t\<close>.
\<close>

definition lowerASCII :: "char \<Rightarrow> char" where
  "lowerASCII c =
     (if 65 \<le> (of_char c :: nat) \<and> (of_char c :: nat) \<le> 90
      then (case c of Char b0 b1 b2 b3 b4 b5 b6 b7 \<Rightarrow> Char b0 b1 b2 b3 b4 True b6 b7)
      else c)"

fun foldKey :: "string \<Rightarrow> string" where
  "foldKey (c1 # c2 # c3 # cs) =
     (if c1 = CHR 0xE2 \<and> c2 = CHR 0x84 \<and> c3 = CHR 0xAA then CHR ''k'' # foldKey cs
      else if c1 = CHR 0xC5 \<and> c2 = CHR 0xBF then CHR ''s'' # foldKey (c3 # cs)
      else lowerASCII c1 # foldKey (c2 # c3 # cs))"
| "foldKey [c1, c2] =
     (if c1 = CHR 0xC5 \<and> c2 = CHR 0xBF then ''s'' else [lowerASCII c1, lowerASCII c2])"
| "foldKey [c1] = [lowerASCII c1]"
| "foldKey [] = []"

text \<open>
  The two texts below stand for the messages \<open>encoding/json\<close> composes (they name the
  offending value, field and type, or the offending character).  Every caller in the
  plugin logs the text or drops it, and nothing else depends on it.
\<close>

definition typeError :: error where
  "typeError = ''json: cannot unmarshal value into Go struct field''"

definition syntaxError :: error where
  "syntaxError = ''invalid character looking for beginning of value''"

definition mapResult :: "error + 'b \<Rightarrow> ('b \<Rightarrow> 'a) \<Rightarrow> error + 'a" where
  "mapResult r f = (case r of Inl e \<Rightarrow> Inl e | Inr x \<Rightarrow> Inr (f x))"

text \<open>
  Decoding writes into an existing Go value: a JSON null leaves a string, a number, a
  struct or a \<open>time.Time\<close> as it is and sets a slice to nil; a value of the wrong JSON
  type is an error (Unmarshal reports it after decoding the rest; every caller in the
  plugin discards the value on any error).  A member that occurs twice is decoded twice
  into the same field.
\<close>

definition decodeString :: "json \<Rightarrow> string \<Rightarrow> error + string" where
  "decodeString j old = (case j of JNull \<Rightarrow> Inr old | JStr s \<Rightarrow> Inr s | _ \<Rightarrow> Inl typeError)"

definition decodeInt :: "json \<Rightarrow> int \<Rightarrow> error + int" where
  "decodeInt j old =
     (case j of
        JNull \<Rightarrow> Inr old
      | JInt i \<Rightarrow> if - (2 ^ 63) \<le> i \<and> i < 2 ^ 63 then Inr i else Inl typeError
      | _ \<Rightarrow> Inl typeError)"

definition decodeTime :: "stdlib \<Rightarrow> json \<Rightarrow> time \<Rightarrow> error + time" where
  "decodeTime L j old =
     (case j of
        JNull \<Rightarrow> Inr old
      | JStr s \<Rightarrow>
          (case parseRFC3339 L s of
             None \<Rightarrow> Inl ''parsing time: cannot parse''
           | Some t \<Rightarrow> Inr t)
      | _ \<Rightarrow> Inl ''Time.UnmarshalJSON: input is not a JSON string'')"

fun decodeFields ::
  "(string \<Rightarrow> json \<Rightarrow> 'a \<Rightarrow> error + 'a) \<Rightarrow> (string \<times> json) list \<Rightarrow> 'a \<Rightarrow> error + 'a" where
  "decodeFields f [] a = Inr a"
| "decodeFields f ((k, v) # kvs) a =
     (case f (foldKey k) v a of Inl e \<Rightarrow> Inl e | Inr a' \<Rightarrow> decodeFields f kvs a')"

definition decodeStruct ::
  "(string \<Rightarrow> json \<Rightarrow> 'a \<Rightarrow> error + 'a) \<Rightarrow> json \<Rightarrow> 'a \<Rightarrow> error + 'a" where
  "decodeStruct f j a =
     (case j of JNull \<Rightarrow> Inr a | JObj kvs \<Rightarrow> decodeFields f kvs a | _ \<Rightarrow> Inl typeError)"

text \<open>
  A Go slice is a window on a backing array.  Decoding a JSON array into a slice writes
  element \<open>i\<close> into position \<open>i\<close> of the backing array, whatever an earlier
  occurrence of the same member left there, also beyond the length of the slice; a
  position the array does not have is a fresh zero value.  The slice ends up with the
  length of the JSON array, what lies behind stays in the backing array.  An empty JSON
  array and null give a slice without backing array.  So a slice being decoded is a
  pair: its elements, and the elements of its backing array behind them (\<open>spare\<close>).
  Every variable the plugin decodes into is fresh, so the spare elements start empty;
  they are carried along the structs that hold the slice and dropped at the end.
\<close>

fun decodeElems ::
  "(json \<Rightarrow> 'a \<Rightarrow> error + 'a) \<Rightarrow> 'a \<Rightarrow> json list \<Rightarrow> 'a list \<Rightarrow> error + 'a list" where
  "decodeElems f z [] backing = Inr []"
| "decodeElems f z (x # xs) backing =
     (case f x (case backing of [] \<Rightarrow> z | b # _ \<Rightarrow> b) of
        Inl e \<Rightarrow> Inl e
      | Inr y \<Rightarrow>
          (case decodeElems f z xs (tl backing) of
             Inl e \<Rightarrow> Inl e
           | Inr ys \<Rightarrow> Inr (y # ys)))"

definition decodeSlice ::
  "(json \<Rightarrow> 'a \<Rightarrow> error + 'a) \<Rightarrow> 'a \<Rightarrow> json \<Rightarrow> 'a list \<times> 'a list \<Rightarrow> error + 'a list \<times> 'a list" where
  "decodeSlice f z j s =
     (case j of
        JNull \<Rightarrow> Inr ([], [])
      | JArr xs \<Rightarrow>
          if xs = [] then Inr ([], [])
          else
            (case decodeElems f z xs (fst s @ snd s) of
               Inl e \<Rightarrow> Inl e
             | Inr ys \<Rightarrow> Inr (ys, drop (length xs) (fst s @ snd s)))
      | _ \<Rightarrow> Inl typeError)"

definition decodeUser :: "json \<Rightarrow> User \<Rightarrow> error + User" where
  "decodeUser =
     decodeStruct (\<lambda>k v u.
       if k = ''id'' then mapResult (decodeString v (usr_ID u)) (\<lambda>s. u\<lparr>usr_ID := s\<rparr>)
       else if k = ''name'' then mapResult (decodeString v (usr_Name u)) (\<lambda>s. u\<lparr>usr_Name := s\<rparr>)
       else if k = ''email'' then mapResult (decodeString v (usr_Email u)) (\<lambda>s. u\<lparr>usr_Email := s\<rparr>)
       else Inr u)"

definition decodeService :: "json \<Rightarrow> Service \<Rightarrow> error + Service" where
  "decodeService =
     decodeStruct (\<lambda>k v x.
       if k = ''id'' then mapResult (decodeString v (svc_ID x)) (\<lambda>s. x\<lparr>svc_ID := s\<rparr>)
       else if k = ''name'' then mapResult (decodeString v (svc_Name x)) (\<lambda>s. x\<lparr>svc_Name := s\<rparr>)
       else Inr x)"

definition decodeEscalationPolicy :: "json \<Rightarrow> EscalationPolicy \<Rightarrow> error + EscalationPolicy" where
  "decodeEscalationPolicy =
     decodeStruct (\<lambda>k v x.
       if k = ''id'' then mapResult (decodeString v (esc_ID x)) (\<lambda>s. x\<lparr>esc_ID := s\<rparr>)
       else if k = ''summary'' then mapResult (decodeString v (esc_Name x)) (\<lambda>s. x\<lparr>esc_Name := s\<rparr>)
       else if k = ''html_url'' then
         mapResult (decodeString v (esc_HTMLURL x)) (\<lambda>s. x\<lparr>esc_HTMLURL := s\<rparr>)
       else Inr x)"

definition decodeAssignment :: "stdlib \<Rightarrow> json \<Rightarrow> Assignment \<Rightarrow> error + Assignment" where
  "decodeAssignment L =
     decodeStruct (\<lambda>k v x.
       if k = ''assignee'' then
         mapResult (decodeUser v (asg_Assignee x)) (\<lambda>u. x\<lparr>asg_Assignee := u\<rparr>)
       else if k = ''at'' then mapResult (decodeTime L v (asg_At x)) (\<lambda>t. x\<lparr>asg_At := t\<rparr>)
       else Inr x)"

definition decodeIncident ::
  "stdlib \<Rightarrow> json \<Rightarrow> Incident \<times> Assignment list \<Rightarrow> error + Incident \<times> Assignment list" where
  "decodeIncident L =
     decodeStruct (\<lambda>k v (x, spare).
       if k = ''id'' then mapResult (decodeString v (inc_ID x)) (\<lambda>s. (x\<lparr>inc_ID := s\<rparr>, spare))
       else if k = ''incident_number'' then
         mapResult (decodeInt v (inc_IncidentNumber x)) (\<lambda>n. (x\<lparr>inc_IncidentNumber := n\<rparr>, spare))
       else if k = ''title'' then
         mapResult (decodeString v (inc_Title x)) (\<lambda>s. (x\<lparr>inc_Title := s\<rparr>, spare))
       else if k = ''description'' then
         mapResult (decodeString v (inc_Description x)) (\<lambda>s. (x\<lparr>inc_Description := s\<rparr>, spare))
       else if k = ''status'' then
         mapResult (decodeString v (inc_Status x)) (\<lambda>s. (x\<lparr>inc_Status := s\<rparr>, spare))
       else if k = ''urgency'' then
         mapResult (decodeString v (inc_Urgency x)) (\<lambda>s. (x\<lparr>inc_Urgency := s\<rparr>, spare))
       else if k = ''created_at'' then
         mapResult (decodeTime L v (inc_CreatedAt x)) (\<lambda>t. (x\<lparr>inc_CreatedAt := t\<rparr>, spare))
       else if k = ''service'' then
         mapResult (decodeService v (inc_Service x)) (\<lambda>y. (x\<lparr>inc_Service := y\<rparr>, spare))
       else if k = ''assignments'' then
         mapResult (decodeSlice (decodeAssignment L) zeroAssignment v (inc_Assignments x, spare))
           (\<lambda>(ys, spare'). (x\<lparr>inc_Assignments := ys\<rparr>, spare'))
       else if k = ''last_status_change_by'' then
         mapResult (decodeUser v (inc_LastStatusChangeBy x))
           (\<lambda>u. (x\<lparr>inc_LastStatusChangeBy := u\<rparr>, spare))
       else if k = ''last_status_change_at'' then
         mapResult (decodeTime L v (inc_LastStatusChangeAt x))
           (\<lambda>t. (x\<lparr>inc_LastStatusChangeAt := t\<rparr>, spare))
       else if k = ''alert_count'' then
         mapResult (decodeInt v (inc_AlertCount x)) (\<lambda>n. (x\<lparr>inc_AlertCount := n\<rparr>, spare))
       else if k = ''html_url'' then
         mapResult (decodeString v (inc_HTMLURL x)) (\<lambda>s. (x\<lparr>inc_HTMLURL := s\<rparr>, spare))
       else if k = ''escalation_policy'' then
         mapResult (decodeEscalationPolicy v (inc_EscalationPolicy x))
           (\<lambda>y. (x\<lparr>inc_EscalationPolicy := y\<rparr>, spare))
       else Inr (x, spare))"

definition decodeV3Reference :: "json \<Rightarrow> V3Reference \<Rightarrow> error + V3Reference" where
  "decodeV3Reference =
     decodeStruct (\<lambda>k v x.
       if k = ''html_url'' then
         mapResult (decodeString v (ref_HTMLURL x)) (\<lambda>s. x\<lparr>ref_HTMLURL := s\<rparr>)
       else if k = ''id'' then mapResult (decodeString v (ref_ID x)) (\<lambda>s. x\<lparr>ref_ID := s\<rparr>)
       else if k = ''self'' then mapResult (decodeString v (ref_Self x)) (\<lambda>s. x\<lparr>ref_Self := s\<rparr>)
       else if k = ''summary'' then
         mapResult (decodeString v (ref_Summary x)) (\<lambda>s. x\<lparr>ref_Summary := s\<rparr>)
       else if k = ''type'' then mapResult (decodeString v (ref_Type x)) (\<lambda>s. x\<lparr>ref_Type := s\<rparr>)
       else Inr x)"

definition decodeV3Event ::
  "stdlib \<Rightarrow> json \<Rightarrow> V3Event \<times> Assignment list \<Rightarrow> error + V3Event \<times> Assignment list" where
  "decodeV3Event L =
     decodeStruct (\<lambda>k v (x, spare).
       if k = ''id'' then mapResult (decodeString v (ev_ID x)) (\<lambda>s. (x\<lparr>ev_ID := s\<rparr>, spare))
       else if k = ''event_type'' then
         mapResult (decodeString v (ev_EventType x)) (\<lambda>s. (x\<lparr>ev_EventType := s\<rparr>, spare))
       else if k = ''resource_type'' then
         mapResult (decodeString v (ev_ResourceType x)) (\<lambda>s. (x\<lparr>ev_ResourceType := s\<rparr>, spare))
       else if k = ''occurred_at'' then
         mapResult (decodeString v (ev_OccurredAt x)) (\<lambda>s. (x\<lparr>ev_OccurredAt := s\<rparr>, spare))
       else if k = ''agent'' then
         mapResult (decodeV3Reference v (ev_Agent x)) (\<lambda>y. (x\<lparr>ev_Agent := y\<rparr>, spare))
       else if k = ''data'' then
         mapResult (decodeIncident L v (ev_Data x, spare))
           (\<lambda>(y, spare'). (x\<lparr>ev_Data := y\<rparr>, spare'))
       else Inr (x, spare))"

definition decodeV3WebhookPayload ::
  "stdlib \<Rightarrow> json \<Rightarrow> V3WebhookPayload \<times> Assignment list
     \<Rightarrow> error + V3WebhookPayload \<times> Assignment list" where
  "decodeV3WebhookPayload L =
     decodeStruct (\<lambda>k v (x, spare).
       if k = ''event'' then
         mapResult (decodeV3Event L v (v3_Event x, spare))
           (\<lambda>(y, spare'). (x\<lparr>v3_Event := y\<rparr>, spare'))
       else Inr (x, spare))"

definition decodePostAttachment ::
  "stdlib \<Rightarrow> json \<Rightarrow> PostAttachment \<times> Assignment list
     \<Rightarrow> error + PostAttachment \<times> Assignment list" where
  "decodePostAttachment L =
     decodeStruct (\<lambda>k v (x, spare).
       if k = ''id'' then mapResult (decodeString v (att_ID x)) (\<lambda>s. (x\<lparr>att_ID := s\<rparr>, spare))
       else if k = ''post_id'' then
         mapResult (decodeString v (att_PostID x)) (\<lambda>s. (x\<lparr>att_PostID := s\<rparr>, spare))
       else if k = ''channel_id'' then
         mapResult (decodeString v (att_ChannelID x)) (\<lambda>s. (x\<lparr>att_ChannelID := s\<rparr>, spare))
       else if k = ''incident'' then
         mapResult (decodeIncident L v (att_Incident x, spare))
           (\<lambda>(y, spare'). (x\<lparr>att_Incident := y\<rparr>, spare'))
       else Inr (x, spare))"

definition decodeIncidentActionPayload ::
  "json \<Rightarrow> IncidentActionPayload \<Rightarrow> error + IncidentActionPayload" where
  "decodeIncidentActionPayload =
     decodeStruct (\<lambda>k v x.
       if k = ''incident_id'' then
         mapResult (decodeString v (act_IncidentID x)) (\<lambda>s. x\<lparr>act_IncidentID := s\<rparr>)
       else if k = ''action'' then
         mapResult (decodeString v (act_Action x)) (\<lambda>s. x\<lparr>act_Action := s\<rparr>)
       else if k = ''user_id'' then
         mapResult (decodeString v (act_UserID x)) (\<lambda>s. x\<lparr>act_UserID := s\<rparr>)
       else if k = ''assignee_id'' then
         mapResult (decodeString v (act_AssigneeID x)) (\<lambda>s. x\<lparr>act_AssigneeID := s\<rparr>)
       else Inr x)"

section \<open>Rendered notification (Mattermost model types)\<close>

record SlackAttachmentField =
  saf_Title :: string
  saf_Value :: string
  saf_Short :: bool

record PostActionIntegration =
  pai_URL :: string
  pai_Context :: "(string \<times> string) list"

text \<open>
  \<open>pa_Options\<close> is \<open>[]*model.PostActionOptions\<close>; the plugin only ever writes the
  empty slice (or leaves it nil), so the list of option texts and values suffices.
\<close>

record PostAction =
  pa_Id :: string
  pa_Name :: string
  pa_Type :: string
  pa_Style :: string
  pa_Integration :: PostActionIntegration
  pa_DataSource :: string
  pa_Options :: "(string \<times> string) list"

record SlackAttachment =
  sa_Title :: string
  sa_Text :: string
  sa_Color :: string
  sa_Fields :: "SlackAttachmentField list"
  sa_Actions :: "PostAction list"

record PostProps =
  pp_attachments :: "SlackAttachment list"
  pp_from_webhook :: string

record Post =
  post_Id :: string
  post_UserId :: string
  post_ChannelId :: string
  post_Props :: PostProps

section \<open>getIncidentActions\<close>

definition pluginID :: string where
  "pluginID = ''com.github.mnzsyu.mattermost-pagerduty-plugin''"

text \<open>\<open>fmt.Sprintf("/plugins/%s/api/v1/incidents/%s/<action>", pluginID, incident.ID)\<close>\<close>

definition actionURL :: "string \<Rightarrow> string \<Rightarrow> string" where
  "actionURL incidentID action =
     ''/plugins/'' @ pluginID @ ''/api/v1/incidents/'' @ incidentID @ ''/'' @ action"

definition getIncidentActions :: "Incident \<Rightarrow> PostAction list" where
  "getIncidentActions incident =
     (if inc_Status incident = StatusTriggered then
        [\<lparr>pa_Id = ActionAcknowledge, pa_Name = ''Acknowledge'', pa_Type = ''button'',
          pa_Style = ''primary'',
          pa_Integration =
            \<lparr>pai_URL = actionURL (inc_ID incident) ''acknowledge'',
             pai_Context = [(''incident_id'', inc_ID incident), (''action'', ActionAcknowledge)]\<rparr>,
          pa_DataSource = [], pa_Options = []\<rparr>]
      else [])
     @
     (if inc_Status incident \<noteq> StatusResolved then
        [\<lparr>pa_Id = ActionResolve, pa_Name = ''Resolve'', pa_Type = ''button'',
          pa_Style = ''success'',
          pa_Integration =
            \<lparr>pai_URL = actionURL (inc_ID incident) ''resolve'',
             pai_Context = [(''incident_id'', inc_ID incident), (''action'', ActionResolve)]\<rparr>,
          pa_DataSource = [], pa_Options = []\<rparr>]
      else [])
     @
     [\<lparr>pa_Id = ActionReassign, pa_Name = ''Reassign'', pa_Type = ''select'',
       pa_Style = [],
       pa_Integration =
         \<lparr>pai_URL = actionURL (inc_ID incident) ''reassign'',
          pai_Context = [(''incident_id'', inc_ID incident), (''action'', ActionReassign)]\<rparr>,
       pa_DataSource = ''custom'', pa_Options = []\<rparr>]"

section \<open>encoding/hex and the signature comparison\<close>

text \<open>
  \<open>crypto/hmac\<close> and \<open>crypto/sha256\<close> belong to the Go standard library, not to the
  repository: HMAC-SHA256 is the parameter \<open>hmacSHA256\<close> of \<open>stdlib\<close> (key first, then
  message).  \<open>hex.EncodeToString\<close> is written out.
\<close>

type_synonym byte = "8 word"

definition hextable :: string where
  "hextable = ''0123456789abcdef''"

definition EncodeToString :: "byte list \<Rightarrow> string" where
  "EncodeToString src =
     concat (map (\<lambda>b. [hextable ! unat (drop_bit 4 b), hextable ! unat (b AND 0x0f)]) src)"

text \<open>
  \<open>hmac.Equal\<close> compares two byte slices without leaking timing; its result is
  equality.  \<open>strings.HasPrefix\<close> and \<open>strings.TrimPrefix\<close> are as in Go.
\<close>

definition hmacEqual :: "string \<Rightarrow> string \<Rightarrow> bool" where
  "hmacEqual mac1 mac2 = (mac1 = mac2)"

definition HasPrefix :: "string \<Rightarrow> string \<Rightarrow> bool" where
  "HasPrefix s prefix = (take (length prefix) s = prefix)"

definition TrimPrefix :: "string \<Rightarrow> string \<Rightarrow> string" where
  "TrimPrefix s prefix = (if HasPrefix s prefix then drop (length prefix) s else s)"

section \<open>The plugin and its collaborators\<close>

text \<open>
  The \<open>configuration\<close> struct is declared in a file that is not among the sources; its
  three fields are the settings of the plugin manifest, read in \<open>pagerduty.go\<close>.
\<close>

record configuration =
  PagerDutyAPIKey :: string
  WebhookSecret :: string
  DefaultChannel :: string

record Channel =
  ch_Id :: string
  ch_Name :: string
  ch_DisplayName :: string

record Team =
  team_Id :: string
  team_Name :: string

record MMUser =
  mm_Id :: string
  mm_Email :: string

text \<open>An \<open>*model.AppError\<close> of the Mattermost API, by the text of its \<open>Error()\<close>.\<close>

type_synonym AppError = string

text \<open>
  The bytes under a key of the plugin's key-value store.  \<open>json.Marshal\<close> of a
  \<open>PostAttachment\<close> is the constructor \<open>AttachmentJSON\<close>, and unmarshalling such bytes
  gives the record back (the encoding of the struct round-trips for the snapshots the
  plugin stores, which come out of a JSON decoder; for the same reason \<open>json.Marshal\<close>
  does not fail on them).  Any other content of the store is \<open>OtherBytes\<close>, decoded as
  Unmarshal does.
\<close>

datatype kv_value = AttachmentJSON PostAttachment | OtherBytes string

text \<open>An outgoing request of the PagerDuty client and the answer of the remote API.\<close>

record pd_request =
  rq_Method :: string
  rq_URL :: string
  rq_Header :: "(string \<times> string) list"
  rq_Payload :: "json option"

record pd_response =
  rs_StatusCode :: int
  rs_Body :: string

text \<open>
  \<open>Plugin\<close> holds the fields of the Go struct that the code reads (\<open>config\<close>,
  \<open>botUserID\<close>, the client's \<open>apiKey\<close>) together with the state of the two systems
  behind \<open>p.API\<close> and \<open>p.pdClient\<close>:
  \<^item> read-only lookups of the Mattermost server, as the answers of the API calls;
  \<^item> the posts of the server, the number of posts it has created, the identifier it
    gives to its n-th post, and the plugin's key-value store;
  \<^item> a fault for each call that can fail for reasons outside the model (when set, the
    call fails with that error and changes nothing);
  \<^item> the remote PagerDuty API as a function from a request to a transport error or a
    response, and the list of requests sent so far.
  Log calls (\<open>p.API.LogDebug\<close> and the like) have no effect on any of these and are
  left out.
\<close>

record Plugin =
  lib :: stdlib
  config :: configuration
  botUserID :: string
  apiKey :: string
  GetChannel :: "string \<Rightarrow> AppError + Channel"
  GetTeams :: "AppError + Team list"
  GetChannelByName :: "string \<Rightarrow> string \<Rightarrow> AppError + Channel"
  GetChannelsForTeamForUser :: "string \<Rightarrow> string \<Rightarrow> AppError + Channel list"
  GetUser :: "string \<Rightarrow> AppError + MMUser"
  posts :: "string \<rightharpoonup> Post"
  postsCreated :: nat
  newPostId :: "nat \<Rightarrow> string"
  kv :: "string \<rightharpoonup> kv_value"
  createPostFault :: "AppError option"
  getPostFault :: "AppError option"
  updatePostFault :: "AppError option"
  kvSetFault :: "AppError option"
  kvGetFault :: "AppError option"
  pdRemote :: "pd_request \<Rightarrow> error + pd_response"
  pdSent :: "pd_request list"

definition CreatePost :: "Plugin \<Rightarrow> Post \<Rightarrow> (AppError + Post) \<times> Plugin" where
  "CreatePost p post =
     (case createPostFault p of
        Some e \<Rightarrow> (Inl e, p)
      | None \<Rightarrow>
          let created = post\<lparr>post_Id := newPostId p (postsCreated p)\<rparr>
          in (Inr created,
              p\<lparr>posts := (posts p)(post_Id created \<mapsto> created),
                postsCreated := Suc (postsCreated p)\<rparr>))"

definition GetPost :: "Plugin \<Rightarrow> string \<Rightarrow> AppError + Post" where
  "GetPost p postID =
     (case getPostFault p of
        Some e \<Rightarrow> Inl e
      | None \<Rightarrow> (case posts p postID of None \<Rightarrow> Inl ''post not found'' | Some post \<Rightarrow> Inr post))"

definition UpdatePost :: "Plugin \<Rightarrow> Post \<Rightarrow> (AppError + Post) \<times> Plugin" where
  "UpdatePost p post =
     (case updatePostFault p of
        Some e \<Rightarrow> (Inl e, p)
      | None \<Rightarrow>
          (case posts p (post_Id post) of
             None \<Rightarrow> (Inl ''post not found'', p)
           | Some _ \<Rightarrow> (Inr post, p\<lparr>posts := (posts p)(post_Id post \<mapsto> post)\<rparr>)))"

definition KVSet :: "Plugin \<Rightarrow> string \<Rightarrow> kv_value \<Rightarrow> AppError option \<times> Plugin" where
  "KVSet p key data =
     (case kvSetFault p of
        Some e \<Rightarrow> (Some e, p)
      | None \<Rightarrow> (None, p\<lparr>kv := (kv p)(key \<mapsto> data)\<rparr>))"

definition KVGet :: "Plugin \<Rightarrow> string \<Rightarrow> AppError + kv_value option" where
  "KVGet p key = (case kvGetFault p of Some e \<Rightarrow> Inl e | None \<Rightarrow> Inr (kv p key))"

section \<open>getChannelID\<close>

fun findChannel :: "stdlib \<Rightarrow> string \<Rightarrow> Channel list \<Rightarrow> Channel option" where
  "findChannel L channelValue [] = None"
| "findChannel L channelValue (ch # chs) =
     (if equalFold L (ch_Name ch) channelValue \<or> equalFold L (ch_DisplayName ch) channelValue
      then Some ch else findChannel L channelValue chs)"

fun searchTeams :: "Plugin \<Rightarrow> string \<Rightarrow> Team list \<Rightarrow> string option" where
  "searchTeams p channelValue [] = None"
| "searchTeams p channelValue (team # rest) =
     (case GetChannelByName p (team_Id team) channelValue of
        Inr channel \<Rightarrow> Some (ch_Id channel)
      | Inl _ \<Rightarrow>
          (case GetChannelsForTeamForUser p (team_Id team) ''me'' of
             Inl _ \<Rightarrow> searchTeams p channelValue rest
           | Inr channels \<Rightarrow>
               (case findChannel (lib p) channelValue channels of
                  Some ch \<Rightarrow> Some (ch_Id ch)
                | None \<Rightarrow> searchTeams p channelValue rest)))"

definition getChannelID :: "Plugin \<Rightarrow> error + string" where
  "getChannelID p =
     (let channelValue = DefaultChannel (config p) in
      if channelValue = [] then Inl ''default channel not configured''
      else
        (case GetChannel p channelValue of
           Inr channel \<Rightarrow> Inr (ch_Id channel)
         | Inl _ \<Rightarrow>
             (case GetTeams p of
                Inl appErr \<Rightarrow> Inl (''failed to get teams: '' @ appErr)
              | Inr teams \<Rightarrow>
                  (case searchTeams p channelValue teams of
                     Some channelID \<Rightarrow> Inr channelID
                   | None \<Rightarrow> Inl (''channel not found in any team: '' @ channelValue)))))"

section \<open>createIncidentProps, createIncidentPost\<close>

text \<open>\<open>strings.Join\<close> and the \<open>%d\<close> verb of \<open>fmt.Sprintf\<close>.\<close>

fun joinStrings :: "string list \<Rightarrow> string \<Rightarrow> string" where
  "joinStrings [] sep = []"
| "joinStrings [x] sep = x"
| "joinStrings (x # y # ys) sep = x @ sep @ joinStrings (y # ys) sep"

fun digitsNat :: "nat \<Rightarrow> string" where
  "digitsNat n =
     (if n < 10 then [char_of (48 + n)]
      else digitsNat (n div 10) @ [char_of (48 + n mod 10)])"

declare digitsNat.simps [simp del]

definition sprintInt :: "int \<Rightarrow> string" where
  "sprintInt i = (if i < 0 then ''-'' @ digitsNat (nat (- i)) else digitsNat (nat i))"

definition incidentColor :: "Incident \<Rightarrow> string" where
  "incidentColor incident =
     (if inc_Status incident = StatusTriggered then
        (if inc_Urgency incident = ''high'' then ''#FF0000'' else ''#FFA500'')
      else if inc_Status incident = StatusAcknowledged then ''#FFFF00''
      else if inc_Status incident = StatusResolved then ''#008000''
      else ''#FFA500'')"

definition createIncidentProps :: "Plugin \<Rightarrow> Incident \<Rightarrow> PostProps" where
  "createIncidentProps p incident =
     (let assignees = map (\<lambda>assignment. usr_Name (asg_Assignee assignment))
                        (inc_Assignments incident);
          fields =
            [\<lparr>saf_Title = ''Service'', saf_Value = svc_Name (inc_Service incident),
              saf_Short = True\<rparr>,
             \<lparr>saf_Title = ''Urgency'', saf_Value = titleCase (lib p) (inc_Urgency incident),
              saf_Short = True\<rparr>]
            @ (if length assignees > 0 then
                 [\<lparr>saf_Title = ''Assigned To'', saf_Value = joinStrings assignees '', '',
                   saf_Short = True\<rparr>]
               else [])
            @ [\<lparr>saf_Title = ''Created'',
                saf_Value = formatRFC3339 (lib p) (inc_CreatedAt incident), saf_Short = True\<rparr>,
               \<lparr>saf_Title = ''Link'',
                saf_Value = ''[View in PagerDuty]('' @ inc_HTMLURL incident @ '')'',
                saf_Short = False\<rparr>];
          attachment =
            \<lparr>sa_Title = ''[#'' @ sprintInt (inc_IncidentNumber incident) @ ''] ''
                          @ inc_Title incident,
             sa_Text = inc_Description incident,
             sa_Color = incidentColor incident,
             sa_Fields = fields,
             sa_Actions = getIncidentActions incident\<rparr>
      in \<lparr>pp_attachments = [attachment], pp_from_webhook = ''true''\<rparr>)"

definition createIncidentPost :: "Plugin \<Rightarrow> Incident \<Rightarrow> string \<Rightarrow> Post" where
  "createIncidentPost p incident channelID =
     \<lparr>post_Id = [],
      post_UserId = (if botUserID p = [] then ''system'' else botUserID p),
      post_ChannelId = channelID,
      post_Props = createIncidentProps p incident\<rparr>"

section \<open>The stored notification record\<close>

definition storeIncidentAttachment :: "Plugin \<Rightarrow> PostAttachment \<Rightarrow> error option \<times> Plugin" where
  "storeIncidentAttachment p attachment =
     (let jsonData = AttachmentJSON attachment;
          key = KeyIncidentAttachments @ att_ID attachment
      in case KVSet p key jsonData of
           (Some appErr, p') \<Rightarrow> (Some (''failed to store attachment in KV store: '' @ appErr), p')
         | (None, p') \<Rightarrow> (None, p'))"

definition zeroPostAttachment :: PostAttachment where
  "zeroPostAttachment =
     \<lparr>att_ID = [], att_PostID = [], att_ChannelID = [], att_Incident = zeroIncident\<rparr>"

definition unmarshalAttachment :: "stdlib \<Rightarrow> kv_value \<Rightarrow> error + PostAttachment" where
  "unmarshalAttachment L data =
     (case data of
        AttachmentJSON attachment \<Rightarrow> Inr attachment
      | OtherBytes bytes \<Rightarrow>
          (case jsonUnmarshal L bytes of
             None \<Rightarrow> Inl syntaxError
           | Some j \<Rightarrow> mapResult (decodePostAttachment L j (zeroPostAttachment, [])) fst))"

definition getIncidentAttachment :: "Plugin \<Rightarrow> string \<Rightarrow> error + PostAttachment option" where
  "getIncidentAttachment p incidentID =
     (let key = KeyIncidentAttachments @ incidentID in
      case KVGet p key of
        Inl appErr \<Rightarrow> Inl (''failed to get attachment from KV store: '' @ appErr)
      | Inr None \<Rightarrow> Inr None
      | Inr (Some data) \<Rightarrow>
          (case unmarshalAttachment (lib p) data of
             Inl err \<Rightarrow> Inl (''failed to unmarshal attachment: '' @ err)
           | Inr attachment \<Rightarrow> Inr (Some attachment)))"

section \<open>Creating and updating the notification\<close>

definition handleTriggeredIncident ::
  "Plugin \<Rightarrow> Incident \<Rightarrow> string \<Rightarrow> error option \<times> Plugin" where
  "handleTriggeredIncident p incident channelID =
     (let post = createIncidentPost p incident channelID in
      case CreatePost p post of
        (Inl appErr, p') \<Rightarrow> (Some (''failed to create post: '' @ appErr), p')
      | (Inr createdPost, p') \<Rightarrow>
          (let attachment =
                 \<lparr>att_ID = inc_ID incident, att_PostID = post_Id createdPost,
                  att_ChannelID = channelID, att_Incident = incident\<rparr>
           in case storeIncidentAttachment p' attachment of
                (Some err, p'') \<Rightarrow> (Some (''failed to store incident attachment: '' @ err), p'')
              | (None, p'') \<Rightarrow> (None, p'')))"

definition updateIncidentPost ::
  "Plugin \<Rightarrow> Incident \<Rightarrow> PostAttachment \<Rightarrow> error option \<times> Plugin" where
  "updateIncidentPost p incident attachment =
     (case GetPost p (att_PostID attachment) of
        Inl _ \<Rightarrow> handleTriggeredIncident p incident (att_ChannelID attachment)
      | Inr post \<Rightarrow>
          (case UpdatePost p (post\<lparr>post_Props := createIncidentProps p incident\<rparr>) of
             (Inl appErr, p') \<Rightarrow> (Some (''failed to update post: '' @ appErr), p')
           | (Inr _, p') \<Rightarrow>
               (case storeIncidentAttachment p' (attachment\<lparr>att_Incident := incident\<rparr>) of
                  (Some err, p'') \<Rightarrow>
                    (Some (''failed to update incident attachment: '' @ err), p'')
                | (None, p'') \<Rightarrow> (None, p''))))"

definition processWebhookMessage :: "Plugin \<Rightarrow> WebhookMessage \<Rightarrow> error option \<times> Plugin" where
  "processWebhookMessage p message =
     (let incident = msg_Incident message in
      case getChannelID p of
        Inl err \<Rightarrow> (Some (''failed to get channel ID: '' @ err), p)
      | Inr channelID \<Rightarrow>
          (let attachment =
                 (case getIncidentAttachment p (inc_ID incident) of
                    Inl _ \<Rightarrow> None
                  | Inr a \<Rightarrow> a)
           in if msg_Event message = EventIncidentTriggered then
                handleTriggeredIncident p incident channelID
              else if msg_Event message = EventIncidentAcknowledged
                    \<or> msg_Event message = EventIncidentResolved
                    \<or> msg_Event message = EventIncidentReassigned
                    \<or> msg_Event message = EventIncidentStatusUpdated then
                (case attachment of
                   Some a \<Rightarrow> updateIncidentPost p incident a
                 | None \<Rightarrow> handleTriggeredIncident p incident channelID)
              else (None, p)))"

text \<open>
  \<open>processV3WebhookEvent\<close> in two steps, as the source has them: the message it builds
  from the event (the resource-type check, the \<open>switch\<close> on the event type and the
  \<open>WebhookMessage\<close> literal; \<open>None\<close> where the source returns \<open>nil\<close> before building
  one), and the call of \<open>processWebhookMessage\<close> on that message.
\<close>

definition processV3WebhookEvent_message :: "V3Event \<Rightarrow> WebhookMessage option" where
  "processV3WebhookEvent_message event =
     (if ev_ResourceType event \<noteq> ''incident'' then None
      else
        (let messageEvent =
               (if ev_EventType event = ''incident.triggered'' then Some EventIncidentTriggered
                else if ev_EventType event = ''incident.acknowledged'' then
                  Some EventIncidentAcknowledged
                else if ev_EventType event = ''incident.resolved'' then Some EventIncidentResolved
                else if ev_EventType event = ''incident.reassigned'' then
                  Some EventIncidentReassigned
                else if ev_EventType event = ''incident.status_update_published'' then
                  Some EventIncidentStatusUpdated
                else None)
         in case messageEvent of
              None \<Rightarrow> None
            | Some e \<Rightarrow>
                Some \<lparr>msg_ID = ev_ID event, msg_Event = e, msg_Incident = ev_Data event\<rparr>))"

definition processV3WebhookEvent :: "Plugin \<Rightarrow> V3Event \<Rightarrow> error option \<times> Plugin" where
  "processV3WebhookEvent p event =
     (case processV3WebhookEvent_message event of
        None \<Rightarrow> (None, p)
      | Some message \<Rightarrow> processWebhookMessage p message)"

section \<open>The webhook endpoint\<close>

text \<open>
  An incoming HTTP request: its method, \<open>r.Header.Get\<close>, and the bytes \<open>io.ReadAll\<close>
  reads from its body (\<open>None\<close> when reading fails).  A response is a status code and
  what was written: the text of \<open>http.Error\<close>, a JSON document, or nothing.
\<close>

record request =
  req_Method :: string
  req_Header :: "string \<Rightarrow> string"
  req_Body :: "string option"

datatype response_body = NoBody | TextBody string | JSONBody json

record response =
  res_StatusCode :: int
  res_Body :: response_body

definition httpError :: "string \<Rightarrow> int \<Rightarrow> response" where
  "httpError msg code = \<lparr>res_StatusCode = code, res_Body = TextBody msg\<rparr>"

definition verifyWebhookSignature :: "Plugin \<Rightarrow> request \<Rightarrow> string \<Rightarrow> error option" where
  "verifyWebhookSignature p r secret =
     (let providedSignature = req_Header r ''X-Pagerduty-Signature'' in
      if providedSignature = [] then
        Some ''no signature provided in X-Pagerduty-Signature header''
      else
        (let providedSignature =
               (if HasPrefix providedSignature ''v1='' then TrimPrefix providedSignature ''v1=''
                else providedSignature)
         in case req_Body r of
              None \<Rightarrow> Some ''failed to read request body''
            | Some body \<Rightarrow>
                (let calculatedSignature =
                       EncodeToString (hmacSHA256 (lib p) secret body)
                 in if hmacEqual providedSignature calculatedSignature then None
                    else Some ''invalid signature'')))"

definition unmarshalV3WebhookPayload :: "stdlib \<Rightarrow> string \<Rightarrow> error + V3WebhookPayload" where
  "unmarshalV3WebhookPayload L body =
     (case jsonUnmarshal L body of
        None \<Rightarrow> Inl syntaxError
      | Some j \<Rightarrow> mapResult (decodeV3WebhookPayload L j (zeroV3WebhookPayload, [])) fst)"

text \<open>
  A failed signature check is only logged (the rejection is commented out in the
  source), so its result does not reach the response.
\<close>

definition HandleWebhook :: "Plugin \<Rightarrow> request \<Rightarrow> response \<times> Plugin" where
  "HandleWebhook p r =
     (if req_Method r \<noteq> ''POST'' then (httpError ''Method not allowed'' 405, p)
      else
        (let signatureErr =
               (if WebhookSecret (config p) \<noteq> [] then
                  verifyWebhookSignature p r (WebhookSecret (config p))
                else None)
         in case req_Body r of
              None \<Rightarrow> (httpError ''Failed to read request body'' 400, p)
            | Some body \<Rightarrow>
                (case unmarshalV3WebhookPayload (lib p) body of
                   Inl err \<Rightarrow> (httpError ''Invalid JSON payload'' 400, p)
                 | Inr payload \<Rightarrow>
                     (case processV3WebhookEvent p (v3_Event payload) of
                        (Some err, p') \<Rightarrow> (httpError ''Failed to process event'' 500, p')
                      | (None, p') \<Rightarrow> (\<lparr>res_StatusCode = 200, res_Body = NoBody\<rparr>, p')))))"

section \<open>The PagerDuty client (package client)\<close>

definition setHeaders :: "Plugin \<Rightarrow> pd_request \<Rightarrow> pd_request" where
  "setHeaders p req =
     req\<lparr>rq_Header := rq_Header req
       @ [(''Content-Type'', ''application/json''),
          (''Accept'', ''application/vnd.pagerduty+json;version=2''),
          (''Authorization'', ''Token token='' @ apiKey p)]\<rparr>"

definition setFrom :: "string \<Rightarrow> pd_request \<Rightarrow> pd_request" where
  "setFrom userEmail req =
     (if userEmail \<noteq> [] then req\<lparr>rq_Header := rq_Header req @ [(''From'', userEmail)]\<rparr>
      else req)"

text \<open>\<open>c.httpClient.Do(req)\<close>: the request reaches the remote API (or the transport fails).\<close>

definition httpDo :: "Plugin \<Rightarrow> pd_request \<Rightarrow> (error + pd_response) \<times> Plugin" where
  "httpDo p req = (pdRemote p req, p\<lparr>pdSent := pdSent p @ [req]\<rparr>)"

definition decodeIncidentResponse :: "stdlib \<Rightarrow> string \<Rightarrow> error + Incident" where
  "decodeIncidentResponse L body =
     (case jsonDecoder L body of
        None \<Rightarrow> Inl syntaxError
      | Some j \<Rightarrow>
          mapResult
            (decodeStruct (\<lambda>k v x. if k = ''incident'' then decodeIncident L v x else Inr x)
               j (zeroIncident, []))
            fst)"

definition decodeUsersResponse :: "stdlib \<Rightarrow> string \<Rightarrow> error + User list" where
  "decodeUsersResponse L body =
     (case jsonDecoder L body of
        None \<Rightarrow> Inl syntaxError
      | Some j \<Rightarrow>
          mapResult
            (decodeStruct
               (\<lambda>k v x. if k = ''users'' then decodeSlice decodeUser zeroUser v x else Inr x)
               j ([], []))
            fst)"

text \<open>
  The payloads are Go maps; \<open>json.Marshal\<close> writes their keys in sorted order, which is
  the order of the members below.
\<close>

definition updatePayload :: "string \<Rightarrow> string \<Rightarrow> json" where
  "updatePayload status note =
     JObj ([(''incident'', JObj [(''status'', JStr status), (''type'', JStr ''incident_reference'')])]
           @ (if note \<noteq> [] then [(''note'', JObj [(''content'', JStr note)])] else []))"

definition assignPayload :: "string list \<Rightarrow> json" where
  "assignPayload userIDs =
     JObj [(''incident'',
            JObj [(''assignments'',
                   JArr (map (\<lambda>userID.
                           JObj [(''assignee'',
                                  JObj [(''id'', JStr userID), (''type'', JStr ''user_reference'')])])
                         userIDs)),
                  (''type'', JStr ''incident_reference'')])]"

definition UpdateIncident ::
  "Plugin \<Rightarrow> string \<Rightarrow> string \<Rightarrow> string \<Rightarrow> string \<Rightarrow> (error + Incident) \<times> Plugin" where
  "UpdateIncident p incidentID status userEmail note =
     (let endpoint = pagerDutyAPIBaseURL @ incidentsEndpoint @ ''/'' @ incidentID in
      if \<not> urlParse (lib p) endpoint then (Inl ''failed to create request'', p)
      else
        (let req = setFrom userEmail (setHeaders p
                     \<lparr>rq_Method = ''PUT'', rq_URL = endpoint, rq_Header = [],
                      rq_Payload = Some (updatePayload status note)\<rparr>)
         in case httpDo p req of
              (Inl err, p') \<Rightarrow> (Inl (''failed to send request: '' @ err), p')
            | (Inr resp, p') \<Rightarrow>
                if rs_StatusCode resp \<noteq> 200 then
                  (Inl (''failed to update incident: '' @ rs_Body resp @ '', status: ''
                        @ sprintInt (rs_StatusCode resp)), p')
                else
                  (case decodeIncidentResponse (lib p) (rs_Body resp) of
                     Inl err \<Rightarrow> (Inl (''failed to decode response: '' @ err), p')
                   | Inr incident \<Rightarrow> (Inr incident, p'))))"

definition AssignIncident ::
  "Plugin \<Rightarrow> string \<Rightarrow> string list \<Rightarrow> string \<Rightarrow> (error + Incident) \<times> Plugin" where
  "AssignIncident p incidentID userIDs userEmail =
     (let endpoint = pagerDutyAPIBaseURL @ incidentsEndpoint @ ''/'' @ incidentID in
      if \<not> urlParse (lib p) endpoint then (Inl ''failed to create request'', p)
      else
        (let req = setFrom userEmail (setHeaders p
                     \<lparr>rq_Method = ''PUT'', rq_URL = endpoint, rq_Header = [],
                      rq_Payload = Some (assignPayload userIDs)\<rparr>)
         in case httpDo p req of
              (Inl err, p') \<Rightarrow> (Inl (''failed to send request: '' @ err), p')
            | (Inr resp, p') \<Rightarrow>
                if rs_StatusCode resp \<noteq> 200 then
                  (Inl (''failed to assign incident: '' @ rs_Body resp @ '', status: ''
                        @ sprintInt (rs_StatusCode resp)), p')
                else
                  (case decodeIncidentResponse (lib p) (rs_Body resp) of
                     Inl err \<Rightarrow> (Inl (''failed to decode response: '' @ err), p')
                   | Inr incident \<Rightarrow> (Inr incident, p'))))"

text \<open>
  The URL of \<open>ListUsers\<close> is the constant \<open>https://api.pagerduty.com/users\<close>, which
  \<open>http.NewRequest\<close> accepts: its error branch cannot be taken.
\<close>

definition listUsersRequest :: "Plugin \<Rightarrow> pd_request" where
  "listUsersRequest p =
     setHeaders p
       \<lparr>rq_Method = ''GET'', rq_URL = pagerDutyAPIBaseURL @ usersEndpoint, rq_Header = [],
        rq_Payload = None\<rparr>"

definition ListUsers :: "Plugin \<Rightarrow> (error + User list) \<times> Plugin" where
  "ListUsers p =
     (case httpDo p (listUsersRequest p) of
        (Inl err, p') \<Rightarrow> (Inl (''failed to send request: '' @ err), p')
      | (Inr resp, p') \<Rightarrow>
          if rs_StatusCode resp \<noteq> 200 then
            (Inl (''failed to list users: '' @ rs_Body resp @ '', status: ''
                  @ sprintInt (rs_StatusCode resp)), p')
          else
            (case decodeUsersResponse (lib p) (rs_Body resp) of
               Inl err \<Rightarrow> (Inl (''failed to decode response: '' @ err), p')
             | Inr users \<Rightarrow> (Inr users, p')))"

text \<open>The requests that \<open>UpdateIncident\<close> and \<open>AssignIncident\<close> send, by name.\<close>

definition updateRequest :: "Plugin \<Rightarrow> string \<Rightarrow> string \<Rightarrow> string \<Rightarrow> string \<Rightarrow> pd_request" where
  "updateRequest p incidentID status userEmail note =
     setFrom userEmail (setHeaders p
       \<lparr>rq_Method = ''PUT'',
        rq_URL = pagerDutyAPIBaseURL @ incidentsEndpoint @ ''/'' @ incidentID,
        rq_Header = [], rq_Payload = Some (updatePayload status note)\<rparr>)"

definition assignRequest :: "Plugin \<Rightarrow> string \<Rightarrow> string list \<Rightarrow> string \<Rightarrow> pd_request" where
  "assignRequest p incidentID userIDs userEmail =
     setFrom userEmail (setHeaders p
       \<lparr>rq_Method = ''PUT'',
        rq_URL = pagerDutyAPIBaseURL @ incidentsEndpoint @ ''/'' @ incidentID,
        rq_Header = [], rq_Payload = Some (assignPayload userIDs)\<rparr>)"

section \<open>The action endpoint\<close>

definition successResponse :: response where
  "successResponse =
     \<lparr>res_StatusCode = 200, res_Body = JSONBody (JObj [(''status'', JStr ''success'')])\<rparr>"

text \<open>
  \<open>options\<close> is a nil slice until the first \<open>append\<close>, and a nil slice is written as
  JSON null.
\<close>

definition userOptions :: "User list \<Rightarrow> json" where
  "userOptions users =
     (if users = [] then JNull
      else JArr (map (\<lambda>user. JObj [(''text'', JStr (usr_Name user)),
                                     (''value'', JStr (usr_ID user))]) users))"

definition fetchUsersResponse :: "User list \<Rightarrow> response" where
  "fetchUsersResponse users =
     (let action = JObj [(''id'', JStr ActionReassign), (''name'', JStr ''Reassign''),
                         (''options'', userOptions users), (''type'', JStr ''select'')];
          attachment = JObj [(''actions'', JArr [action])];
          props = JObj [(''attachments'', JArr [attachment])]
      in \<lparr>res_StatusCode = 200,
          res_Body = JSONBody (JObj [(''update'', JObj [(''props'', props)])])\<rparr>)"

definition performReassign ::
  "Plugin \<Rightarrow> string \<Rightarrow> string \<Rightarrow> string \<Rightarrow> response \<times> Plugin" where
  "performReassign p incidentID assigneeID userEmail =
     (if assigneeID = ''fetch_users'' then
        (case ListUsers p of
           (Inl err, p') \<Rightarrow> (httpError ''Failed to list users'' 500, p')
         | (Inr users, p') \<Rightarrow> (fetchUsersResponse users, p'))
      else
        (case AssignIncident p incidentID [assigneeID] userEmail of
           (Inl err, p') \<Rightarrow> (httpError ''Failed to assign incident'' 500, p')
         | (Inr _, p') \<Rightarrow> (successResponse, p')))"

definition decodeActionBody :: "stdlib \<Rightarrow> string option \<Rightarrow> error + IncidentActionPayload" where
  "decodeActionBody L body =
     (case body of
        None \<Rightarrow> Inl ''failed to read request body''
      | Some bytes \<Rightarrow>
          (case jsonDecoder L bytes of
             None \<Rightarrow> Inl syntaxError
           | Some j \<Rightarrow> decodeIncidentActionPayload j zeroIncidentActionPayload))"

text \<open>
  The \<open>switch\<close> on the action sets \<open>status\<close> for acknowledge and resolve, hands
  reassign to \<open>performReassign\<close>, and rejects everything else.
\<close>

definition HandleIncidentAction ::
  "Plugin \<Rightarrow> request \<Rightarrow> string \<Rightarrow> string \<Rightarrow> response \<times> Plugin" where
  "HandleIncidentAction p r incidentID action =
     (let userID = req_Header r ''Mattermost-User-ID'' in
      if userID = [] then (httpError ''Not authorized'' 401, p)
      else
        (case decodeActionBody (lib p) (req_Body r) of
           Inl err \<Rightarrow> (httpError ''Invalid request'' 400, p)
         | Inr payload \<Rightarrow>
             (case GetUser p userID of
                Inl appErr \<Rightarrow> (httpError ''Failed to get user'' 500, p)
              | Inr user \<Rightarrow>
                  if action = ActionAcknowledge \<or> action = ActionResolve then
                    (let status = (if action = ActionAcknowledge then StatusAcknowledged
                                   else StatusResolved)
                     in case UpdateIncident p incidentID status (mm_Email user) [] of
                          (Inl err, p') \<Rightarrow> (httpError ''Failed to update incident'' 500, p')
                        | (Inr _, p') \<Rightarrow> (successResponse, p'))
                  else if action = ActionReassign then
                    performReassign p incidentID (act_AssigneeID payload) (mm_Email user)
                  else (httpError ''Invalid action'' 400, p))))"

text \<open>The signature the plugin computes for a secret and a body.\<close>

abbreviation hexDigest :: "stdlib \<Rightarrow> string \<Rightarrow> string \<Rightarrow> string" where
  "hexDigest L secret body \<equiv> EncodeToString (hmacSHA256 L secret body)"

section \<open>Example states\<close>

text \<open>
  A concrete plugin state and incident for the closed instances below, and the state
  \<open>afterCreate p incident channelID\<close> that a successful run of the create path leaves:
  one more post, and the record of the incident pointing to it.
\<close>

definition legacyBody :: string where
  \<open>legacyBody = ''{"messages":[{"event":"incident.triggered","incident":{"id":"INC1"}}]}''\<close>

definition legacyDocument :: json where
  "legacyDocument =
     JObj [(''messages'',
            JArr [JObj [(''event'', JStr ''incident.triggered''),
                        (''incident'', JObj [(''id'', JStr ''INC1'')])]])]"

definition fetchUsersBody :: string where
  \<open>fetchUsersBody = ''{"assignee_id":"fetch_users"}''\<close>

definition incidentBody :: string where
  \<open>incidentBody = ''{"incident":{"id":"INC1","status":"acknowledged"}}''\<close>

definition usersBody :: string where
  \<open>usersBody = ''{"users":[{"id":"PU1","name":"Alice"},{"id":"PU2","name":"Bob"}]}''\<close>

text \<open>The JSON parser of the example library, on the five bodies the examples use.\<close>

definition exampleJSON :: "string \<Rightarrow> json option" where
  "exampleJSON s =
     (if s = legacyBody then Some legacyDocument
      else if s = ''{}'' then Some (JObj [])
      else if s = fetchUsersBody then Some (JObj [(''assignee_id'', JStr ''fetch_users'')])
      else if s = incidentBody then
        Some (JObj [(''incident'',
                     JObj [(''id'', JStr ''INC1''), (''status'', JStr ''acknowledged'')])])
      else if s = usersBody then
        Some (JObj [(''users'',
                     JArr [JObj [(''id'', JStr ''PU1''), (''name'', JStr ''Alice'')],
                           JObj [(''id'', JStr ''PU2''), (''name'', JStr ''Bob'')]])])
      else None)"

text \<open>
  A stand-in for the digest in the examples: 32 bytes that depend on key and message.
  It is not a message authentication code; the examples only need its length.
\<close>

definition exampleDigest :: "string \<Rightarrow> string \<Rightarrow> 8 word list" where
  "exampleDigest key message =
     take 32 (map (\<lambda>c. of_nat (of_char c)) (key @ message) @ replicate 32 0)"

definition exampleLib :: stdlib where
  "exampleLib =
     \<lparr>titleCase = (\<lambda>s. s),
      formatRFC3339 = (\<lambda>t. ''2024-05-01T10:00:00Z''),
      parseRFC3339 = (\<lambda>s. if s = ''2024-05-01T10:00:00Z'' then Some 1 else None),
      jsonUnmarshal = exampleJSON,
      jsonDecoder = exampleJSON,
      equalFold = (\<lambda>a b. map lowerASCII a = map lowerASCII b),
      urlParse = (\<lambda>u. True),
      hmacSHA256 = exampleDigest\<rparr>"

text \<open>
  The remote API of the examples answers the update of incident INC1 and the list of
  users, and knows nothing else.
\<close>

definition exampleRemote :: "pd_request \<Rightarrow> error + pd_response" where
  "exampleRemote req =
     (if rq_Method req = ''PUT'' \<and> rq_URL req = ''https://api.pagerduty.com/incidents/INC1''
      then Inr \<lparr>rs_StatusCode = 200, rs_Body = incidentBody\<rparr>
      else if rq_Method req = ''GET'' \<and> rq_URL req = ''https://api.pagerduty.com/users''
      then Inr \<lparr>rs_StatusCode = 200, rs_Body = usersBody\<rparr>
      else Inr \<lparr>rs_StatusCode = 404, rs_Body = ''Not Found''\<rparr>)"

definition examplePlugin :: Plugin where
  "examplePlugin =
     \<lparr>lib = exampleLib,
      config = \<lparr>PagerDutyAPIKey = ''key'', WebhookSecret = [], DefaultChannel = ''alerts''\<rparr>,
      botUserID = ''bot'',
      apiKey = ''key'',
      GetChannel = (\<lambda>c. if c = ''alerts'' then
                           Inr \<lparr>ch_Id = ''alerts'', ch_Name = ''alerts'', ch_DisplayName = ''Alerts''\<rparr>
                         else Inl ''channel not found''),
      GetTeams = Inr [],
      GetChannelByName = (\<lambda>t n. Inl ''channel not found''),
      GetChannelsForTeamForUser = (\<lambda>t u. Inr []),
      GetUser = (\<lambda>u. if u = ''u1'' then Inr \<lparr>mm_Id = ''u1'', mm_Email = ''a@example.com''\<rparr>
                      else Inl ''user not found''),
      posts = Map.empty,
      postsCreated = 0,
      newPostId = (\<lambda>n. if n = 0 then ''post-a'' else if n = 1 then ''post-b'' else ''post-c''),
      kv = Map.empty,
      createPostFault = None, getPostFault = None, updatePostFault = None,
      kvSetFault = None, kvGetFault = None,
      pdRemote = exampleRemote,
      pdSent = []\<rparr>"

definition signedRequest :: "string \<Rightarrow> string \<Rightarrow> request" where
  "signedRequest signature body =
     \<lparr>req_Method = ''POST'',
      req_Header = (\<lambda>h. if h = ''X-Pagerduty-Signature'' then signature else []),
      req_Body = Some body\<rparr>"

definition actionRequest :: "string \<Rightarrow> string \<Rightarrow> request" where
  "actionRequest userID body =
     \<lparr>req_Method = ''POST'',
      req_Header = (\<lambda>h. if h = ''Mattermost-User-ID'' then userID else []),
      req_Body = Some body\<rparr>"

definition exampleIncident :: Incident where
  "exampleIncident =
     zeroIncident\<lparr>inc_ID := ''INC1'', inc_IncidentNumber := 42, inc_Title := ''Disk full'',
       inc_Status := ''triggered'', inc_Urgency := ''high''\<rparr>"

definition afterCreate :: "Plugin \<Rightarrow> Incident \<Rightarrow> string \<Rightarrow> Plugin" where
  "afterCreate p incident channelID =
     p\<lparr>posts := (posts p)(newPostId p (postsCreated p) \<mapsto>
          (createIncidentPost p incident channelID)\<lparr>post_Id := newPostId p (postsCreated p)\<rparr>),
       postsCreated := Suc (postsCreated p),
       kv := (kv p)(KeyIncidentAttachments @ inc_ID incident \<mapsto>
          AttachmentJSON \<lparr>att_ID = inc_ID incident, att_PostID = newPostId p (postsCreated p),
            att_ChannelID = channelID, att_Incident = incident\<rparr>)\<rparr>"

definition exampleMessage :: "string \<Rightarrow> WebhookMessage" where
  "exampleMessage e = \<lparr>msg_ID = ''EV1'', msg_Event = e, msg_Incident = exampleIncident\<rparr>"

definition stalePlugin :: Plugin where
  "stalePlugin =
     examplePlugin\<lparr>kv := [''incident_attachments:INC1'' \<mapsto>
        AttachmentJSON \<lparr>att_ID = ''INC1'', att_PostID = ''deleted-post'',
          att_ChannelID = ''old-channel'', att_Incident = exampleIncident\<rparr>]\<rparr>"

definition notifiedPlugin :: Plugin where
  "notifiedPlugin = afterCreate examplePlugin exampleIncident ''alerts''"

section \<open>Lemmas: the create and update paths\<close>

lemma handleTriggeredIncident_ok:
  assumes "createPostFault p = None" and "kvSetFault p = None"
  shows "handleTriggeredIncident p incident channelID = (None, afterCreate p incident channelID)"
  using assms
  by (simp add: handleTriggeredIncident_def CreatePost_def storeIncidentAttachment_def
      KVSet_def Let_def afterCreate_def)

lemma afterCreate_sel:
  "postsCreated (afterCreate p i c) = Suc (postsCreated p)"
  "newPostId (afterCreate p i c) = newPostId p"
  "kv (afterCreate p i c) = (kv p)(KeyIncidentAttachments @ inc_ID i \<mapsto>
      AttachmentJSON \<lparr>att_ID = inc_ID i, att_PostID = newPostId p (postsCreated p),
        att_ChannelID = c, att_Incident = i\<rparr>)"
  "posts (afterCreate p i c) = (posts p)(newPostId p (postsCreated p) \<mapsto>
      (createIncidentPost p i c)\<lparr>post_Id := newPostId p (postsCreated p)\<rparr>)"
  by (simp_all add: afterCreate_def)

lemma searchTeams_afterCreate: "searchTeams (afterCreate p i c) cv ts = searchTeams p cv ts"
  by (induction ts) (simp_all add: afterCreate_def cong: sum.case_cong option.case_cong)

lemma getChannelID_afterCreate: "getChannelID (afterCreate p i c) = getChannelID p"
  unfolding getChannelID_def searchTeams_afterCreate
  by (simp add: afterCreate_def Let_def cong: sum.case_cong option.case_cong)

lemma searchTeams_kvGetFault: "searchTeams (p\<lparr>kvGetFault := x\<rparr>) cv ts = searchTeams p cv ts"
  by (induction ts) (simp_all cong: sum.case_cong option.case_cong)

lemma getChannelID_kvGetFault: "getChannelID (p\<lparr>kvGetFault := x\<rparr>) = getChannelID p"
  unfolding getChannelID_def searchTeams_kvGetFault
  by (simp add: Let_def cong: sum.case_cong option.case_cong)

lemma processWebhookMessage_triggered:
  "getChannelID p = Inr ch \<Longrightarrow> msg_Event m = EventIncidentTriggered \<Longrightarrow>
   processWebhookMessage p m = handleTriggeredIncident p (msg_Incident m) ch"
  by (simp add: processWebhookMessage_def Let_def)



lemma processWebhookMessage_record:
  assumes "kv p (KeyIncidentAttachments @ inc_ID (msg_Incident m)) = Some (AttachmentJSON a)"
    and "kvGetFault p = None"
    and "getChannelID p = Inr ch"
    and "msg_Event m = EventIncidentAcknowledged
       \<or> msg_Event m = EventIncidentResolved \<or> msg_Event m = EventIncidentReassigned
       \<or> msg_Event m = EventIncidentStatusUpdated"
  shows "processWebhookMessage p m = updateIncidentPost p (msg_Incident m) a"
proof -
  have "(case getIncidentAttachment p (inc_ID (msg_Incident m)) of Inl _ \<Rightarrow> None | Inr x \<Rightarrow> x)
      = Some a"
    using assms(1,2)
    by (simp add: getIncidentAttachment_def KVGet_def Let_def unmarshalAttachment_def)
  then show ?thesis
    using assms(3,4)
    by (auto simp add: processWebhookMessage_def Let_def EventIncidentTriggered_def
        EventIncidentAcknowledged_def EventIncidentResolved_def EventIncidentReassigned_def
        EventIncidentStatusUpdated_def)
qed

lemma processWebhookMessage_read_fails:
  assumes "kvGetFault p \<noteq> None"
    and "getChannelID p = Inr ch"
    and "msg_Event m = EventIncidentTriggered \<or> msg_Event m = EventIncidentAcknowledged
       \<or> msg_Event m = EventIncidentResolved \<or> msg_Event m = EventIncidentReassigned
       \<or> msg_Event m = EventIncidentStatusUpdated"
  shows "processWebhookMessage p m = handleTriggeredIncident p (msg_Incident m) ch"
proof -
  have "(case getIncidentAttachment p (inc_ID (msg_Incident m)) of Inl _ \<Rightarrow> None | Inr a \<Rightarrow> a) = None"
    using assms(1) by (auto simp add: getIncidentAttachment_def KVGet_def Let_def)
  then show ?thesis
    using assms(2,3) by (auto simp add: processWebhookMessage_def Let_def)
qed

lemma updateIncidentPost_stale:
  "posts p (att_PostID a) = None \<Longrightarrow>
   updateIncidentPost p incident a = handleTriggeredIncident p incident (att_ChannelID a)"
  by (simp add: updateIncidentPost_def GetPost_def split: option.splits)

lemma two_triggers:
  assumes "getChannelID p = Inr ch" "createPostFault p = None" "kvSetFault p = None"
      "msg_Event m = EventIncidentTriggered"
  shows "processWebhookMessage p m = (None, afterCreate p (msg_Incident m) ch)"
    and "processWebhookMessage (afterCreate p (msg_Incident m) ch) m
         = (None, afterCreate (afterCreate p (msg_Incident m) ch) (msg_Incident m) ch)"
proof -
  show "processWebhookMessage p m = (None, afterCreate p (msg_Incident m) ch)"
    using assms by (simp add: processWebhookMessage_triggered handleTriggeredIncident_ok)
  have "getChannelID (afterCreate p (msg_Incident m) ch) = Inr ch"
    using assms(1) by (simp add: getChannelID_afterCreate)
  moreover have "createPostFault (afterCreate p (msg_Incident m) ch) = None"
    "kvSetFault (afterCreate p (msg_Incident m) ch) = None"
    using assms by (simp_all add: afterCreate_def)
  ultimately show "processWebhookMessage (afterCreate p (msg_Incident m) ch) m
         = (None, afterCreate (afterCreate p (msg_Incident m) ch) (msg_Incident m) ch)"
    using assms(4) by (simp add: processWebhookMessage_triggered handleTriggeredIncident_ok)
qed

section \<open>Lemmas: decoding a payload without an event\<close>

lemma decodeFields_unmatched:
  assumes "\<And>k v x. k \<noteq> key \<Longrightarrow> f k v x = Inr x"
    and "key \<notin> foldKey ` fst ` set kvs"
  shows "decodeFields f kvs a = Inr a"
  using assms(2)
proof (induction kvs)
  case Nil
  then show ?case by simp
next
  case (Cons kv kvs)
  obtain k v where kv: "kv = (k, v)" by (cases kv)
  with Cons.prems have "foldKey k \<noteq> key" and "key \<notin> foldKey ` fst ` set kvs"
    by auto
  then show ?case
    using Cons.IH kv assms(1) [of "foldKey k" v a] by simp
qed

lemma decodeV3WebhookPayload_no_event:
  assumes "''event'' \<notin> foldKey ` fst ` set kvs"
  shows "decodeV3WebhookPayload L (JObj kvs) a = Inr a"
  unfolding decodeV3WebhookPayload_def decodeStruct_def
  by (simp add: decodeFields_unmatched [OF _ assms] split_def)

lemma processV3WebhookEvent_zero: "processV3WebhookEvent p zeroV3Event = (None, p)"
  by (simp add: processV3WebhookEvent_def processV3WebhookEvent_message_def zeroV3Event_def)

lemma HandleWebhook_no_event:
  assumes "req_Method r = ''POST''" and "req_Body r = Some body"
    and "jsonUnmarshal (lib p) body = Some (JObj kvs)"
    and "''event'' \<notin> foldKey ` fst ` set kvs"
  shows "HandleWebhook p r = (\<lparr>res_StatusCode = 200, res_Body = NoBody\<rparr>, p)"
proof -
  have "unmarshalV3WebhookPayload (lib p) body = Inr zeroV3WebhookPayload"
    using assms(3) decodeV3WebhookPayload_no_event [OF assms(4)]
    by (simp add: unmarshalV3WebhookPayload_def mapResult_def)
  moreover have "v3_Event zeroV3WebhookPayload = zeroV3Event"
    by (simp add: zeroV3WebhookPayload_def)
  ultimately show ?thesis
    using assms(1,2) by (simp add: HandleWebhook_def Let_def processV3WebhookEvent_zero)
qed

section \<open>Lemmas: the client and the action handler\<close>

lemma UpdateIncident_unfold:
  "UpdateIncident p i s e n =
     (if \<not> urlParse (lib p) (pagerDutyAPIBaseURL @ incidentsEndpoint @ ''/'' @ i)
      then (Inl ''failed to create request'', p)
      else
        (case pdRemote p (updateRequest p i s e n) of
           Inl err \<Rightarrow>
             (Inl (''failed to send request: '' @ err),
              p\<lparr>pdSent := pdSent p @ [updateRequest p i s e n]\<rparr>)
         | Inr resp \<Rightarrow>
             if rs_StatusCode resp \<noteq> 200 then
               (Inl (''failed to update incident: '' @ rs_Body resp @ '', status: ''
                     @ sprintInt (rs_StatusCode resp)),
                p\<lparr>pdSent := pdSent p @ [updateRequest p i s e n]\<rparr>)
             else
               (case decodeIncidentResponse (lib p) (rs_Body resp) of
                  Inl err \<Rightarrow>
                    (Inl (''failed to decode response: '' @ err),
                     p\<lparr>pdSent := pdSent p @ [updateRequest p i s e n]\<rparr>)
                | Inr incident \<Rightarrow>
                    (Inr incident, p\<lparr>pdSent := pdSent p @ [updateRequest p i s e n]\<rparr>))))"
  by (simp add: UpdateIncident_def updateRequest_def httpDo_def Let_def split: sum.splits)

lemma UpdateIncident_cases:
  "snd (UpdateIncident p i s e n) = p
   \<or> snd (UpdateIncident p i s e n) = p\<lparr>pdSent := pdSent p @ [updateRequest p i s e n]\<rparr>"
  by (simp add: UpdateIncident_def httpDo_def Let_def updateRequest_def
      split: sum.splits prod.splits)

lemma UpdateIncident_ok:
  assumes "UpdateIncident p i s e n = (Inr incident, p')"
  shows "p' = p\<lparr>pdSent := pdSent p @ [updateRequest p i s e n]\<rparr>"
  using assms
  by (simp add: UpdateIncident_def httpDo_def Let_def updateRequest_def
      split: sum.splits prod.splits if_splits)

lemma AssignIncident_cases:
  "snd (AssignIncident p i us e) = p
   \<or> snd (AssignIncident p i us e) = p\<lparr>pdSent := pdSent p @ [assignRequest p i us e]\<rparr>"
  by (simp add: AssignIncident_def httpDo_def Let_def assignRequest_def
      split: sum.splits prod.splits)

lemma ListUsers_sent: "snd (ListUsers p) = p\<lparr>pdSent := pdSent p @ [listUsersRequest p]\<rparr>"
  by (simp add: ListUsers_def httpDo_def split: sum.splits prod.splits)

lemma frame_pdSent:
  "posts (p\<lparr>pdSent := sent\<rparr>) = posts p" "kv (p\<lparr>pdSent := sent\<rparr>) = kv p"
  "postsCreated (p\<lparr>pdSent := sent\<rparr>) = postsCreated p"
  by simp_all

lemma HandleIncidentAction_update:
  assumes "req_Header r ''Mattermost-User-ID'' \<noteq> []"
    and "decodeActionBody (lib p) (req_Body r) = Inr payload"
    and "GetUser p (req_Header r ''Mattermost-User-ID'') = Inr user"
    and "(action = ActionAcknowledge \<and> status = StatusAcknowledged)
       \<or> (action = ActionResolve \<and> status = StatusResolved)"
  shows "HandleIncidentAction p r incidentID action =
     (case UpdateIncident p incidentID status (mm_Email user) [] of
        (Inl err, p') \<Rightarrow> (httpError ''Failed to update incident'' 500, p')
      | (Inr _, p') \<Rightarrow> (successResponse, p'))"
  using assms
  by (auto simp add: HandleIncidentAction_def Let_def ActionAcknowledge_def ActionResolve_def
      ActionReassign_def)

section \<open>Lemmas: hex encoding and prefixes\<close>

lemma hextable_props: "distinct hextable" "length hextable = 16" "CHR ''v'' \<notin> set hextable"
  by (simp_all add: hextable_def)

lemma hextable_nth_inj:
  "i < 16 \<Longrightarrow> j < 16 \<Longrightarrow> hextable ! i = hextable ! j \<Longrightarrow> i = j"
  using hextable_props(1,2) by (simp add: nth_eq_iff_index_eq)

lemma hextable_nth_not_v: "i < 16 \<Longrightarrow> hextable ! i = CHR ''v'' \<Longrightarrow> False"
proof -
  assume "i < 16" and "hextable ! i = CHR ''v''"
  then have "CHR ''v'' \<in> set hextable"
    using nth_mem [of i hextable] hextable_props(2) by (metis)
  then show False
    using hextable_props(3) by simp
qed

lemma nibble_hi: "unat (drop_bit 4 (b :: byte)) < 16"
proof -
  have "unat (drop_bit 4 b) = unat b div 16"
    by (simp add: unat_drop_bit_eq drop_bit_eq_div unat_div)
  moreover have "unat b < 256"
    using unsigned_less [of b] by simp
  ultimately show ?thesis by simp
qed

lemma nibble_lo: "unat ((b :: byte) AND 0x0f) < 16"
proof -
  have "unat (b AND 15) \<le> unat (15 :: byte)"
    by (rule word_and_le1 [THEN word_le_nat_alt [THEN iffD1]])
  then show ?thesis by simp
qed

lemma byte_nibbles_inj:
  fixes x y :: byte
  assumes hi: "drop_bit 4 x = drop_bit 4 y" and lo: "x AND 0x0f = y AND 0x0f"
  shows "x = y"
proof (rule bit_eqI)
  fix n
  have m: "(15 :: byte) = mask 4"
    by (simp add: mask_eq_exp_minus_1)
  show "bit x n = bit y n"
  proof (cases "n < 4")
    case True
    have "bit (x AND mask 4) n = bit (y AND mask 4) n"
      using lo m by simp
    then show ?thesis
      using True by (simp add: bit_and_iff bit_mask_iff)
  next
    case False
    have "bit (drop_bit 4 x) (n - 4) = bit (drop_bit 4 y) (n - 4)"
      using hi by simp
    then show ?thesis
      using False by (simp add: bit_drop_bit_eq)
  qed
qed

lemma EncodeToString_Cons:
  "EncodeToString (b # bs) =
     hextable ! unat (drop_bit 4 b) # hextable ! unat (b AND 0x0f) # EncodeToString bs"
  by (simp add: EncodeToString_def)

lemma EncodeToString_Nil: "EncodeToString [] = []"
  by (simp add: EncodeToString_def)

lemma EncodeToString_inj: "EncodeToString a = EncodeToString b \<Longrightarrow> a = b"
proof (induction a arbitrary: b)
  case Nil
  then show ?case
    by (cases b) (simp_all add: EncodeToString_Nil EncodeToString_Cons)
next
  case (Cons x xs)
  then obtain y ys where b: "b = y # ys"
    by (cases b) (simp_all add: EncodeToString_Nil EncodeToString_Cons)
  from Cons.prems b have
    hi: "hextable ! unat (drop_bit 4 x) = hextable ! unat (drop_bit 4 y)" and
    lo: "hextable ! unat (x AND 0x0f) = hextable ! unat (y AND 0x0f)" and
    rest: "EncodeToString xs = EncodeToString ys"
    by (simp_all add: EncodeToString_Cons)
  have "unat (drop_bit 4 x) = unat (drop_bit 4 y)"
    using hi nibble_hi hextable_nth_inj by blast
  then have hi': "drop_bit 4 x = drop_bit 4 y"
    by (simp add: word_unat_eq_iff)
  have "unat (x AND 0x0f) = unat (y AND 0x0f)"
    using lo nibble_lo hextable_nth_inj by blast
  then have lo': "x AND 0x0f = y AND 0x0f"
    by (simp add: word_unat_eq_iff)
  from hi' lo' have "x = y"
    by (rule byte_nibbles_inj)
  with Cons.IH [OF rest] b show ?case by simp
qed

lemma encoded_shape:
  assumes "length d = 32"
  shows "\<exists>c cs. EncodeToString d = c # cs \<and> c \<noteq> CHR ''v''"
proof -
  obtain b bs where "d = b # bs"
    using assms by (cases d) simp_all
  then have "EncodeToString d =
      hextable ! unat (drop_bit 4 b) # hextable ! unat (b AND 0x0f) # EncodeToString bs"
    by (simp add: EncodeToString_Cons)
  moreover have "hextable ! unat (drop_bit 4 b) \<noteq> CHR ''v''"
    using hextable_nth_not_v nibble_hi by blast
  ultimately show ?thesis by blast
qed

lemma encoded_not_empty: "length d = 32 \<Longrightarrow> EncodeToString d \<noteq> []"
  using encoded_shape [of d] by auto

lemma encoded_no_v1: "length d = 32 \<Longrightarrow> \<not> HasPrefix (EncodeToString d) ''v1=''"
  using encoded_shape [of d] by (auto simp add: HasPrefix_def)

lemma TrimPrefix_if: "(if HasPrefix s pre then TrimPrefix s pre else s) = TrimPrefix s pre"
  by (simp add: TrimPrefix_def)

lemma TrimPrefix_append: "TrimPrefix (pre @ s) pre = s"
  by (simp add: TrimPrefix_def HasPrefix_def)

lemma TrimPrefix_other:
  assumes "pre \<noteq> []" and "pre \<noteq> q"
  shows "TrimPrefix (pre @ s) q \<noteq> s"
proof (cases "HasPrefix (pre @ s) q")
  case False
  then show ?thesis
    using assms(1) by (simp add: TrimPrefix_def)
next
  case True
  then have t: "take (length q) (pre @ s) = q"
    by (simp add: HasPrefix_def)
  show ?thesis
  proof
    assume "TrimPrefix (pre @ s) q = s"
    with True have d: "drop (length q) (pre @ s) = s"
      by (simp add: TrimPrefix_def)
    have "length (drop (length q) (pre @ s)) = length s"
      using d by simp
    then have l1: "length pre + length s - length q = length s"
      by simp
    have "length (take (length q) (pre @ s)) = length q"
      using t by simp
    then have l2: "length q \<le> length pre + length s"
      by simp
    from l1 l2 have "length pre = length q"
      by arith
    then have "take (length q) (pre @ s) = pre"
      by simp
    with t show False
      using assms(2) by simp
  qed
qed

lemma verifyWebhookSignature_iff:
  assumes "req_Body r = Some body"
  shows "verifyWebhookSignature p r secret = None \<longleftrightarrow>
     req_Header r ''X-Pagerduty-Signature'' \<noteq> []
     \<and> TrimPrefix (req_Header r ''X-Pagerduty-Signature'') ''v1=''
         = hexDigest (lib p) secret body"
  using assms
  by (simp add: verifyWebhookSignature_def Let_def TrimPrefix_if hmacEqual_def)

section \<open>Facts of the example states\<close>

lemma examplePlugin_channel: "getChannelID examplePlugin = Inr ''alerts''"
  by (simp add: getChannelID_def examplePlugin_def)

lemma examplePlugin_faults:
  "createPostFault examplePlugin = None" "kvSetFault examplePlugin = None"
  "kvGetFault examplePlugin = None" "getPostFault examplePlugin = None"
  "updatePostFault examplePlugin = None"
  by (simp_all add: examplePlugin_def)

lemma examplePlugin_state:
  "postsCreated examplePlugin = 0" "posts examplePlugin = Map.empty" "kv examplePlugin = Map.empty"
  "newPostId examplePlugin 0 = ''post-a''" "newPostId examplePlugin (Suc 0) = ''post-b''"
  by (simp_all add: examplePlugin_def)

lemma examplePlugin_sel:
  "lib examplePlugin = exampleLib" "pdRemote examplePlugin = exampleRemote"
  "pdSent examplePlugin = []" "apiKey examplePlugin = ''key''"
  "GetUser examplePlugin ''u1'' = Inr \<lparr>mm_Id = ''u1'', mm_Email = ''a@example.com''\<rparr>"
  by (simp_all add: examplePlugin_def)

lemma stalePlugin_facts:
  "getChannelID stalePlugin = Inr ''alerts''"
  "createPostFault stalePlugin = None" "kvSetFault stalePlugin = None"
  "kvGetFault stalePlugin = None"
  "posts stalePlugin = Map.empty" "postsCreated stalePlugin = 0"
  "newPostId stalePlugin 0 = ''post-a''"
  "kv stalePlugin = [''incident_attachments:INC1'' \<mapsto>
        AttachmentJSON \<lparr>att_ID = ''INC1'', att_PostID = ''deleted-post'',
          att_ChannelID = ''old-channel'', att_Incident = exampleIncident\<rparr>]"
  by (simp_all add: stalePlugin_def getChannelID_def examplePlugin_def)

lemma notifiedPlugin_sel:
  "lib notifiedPlugin = exampleLib" "pdRemote notifiedPlugin = exampleRemote"
  "pdSent notifiedPlugin = []" "apiKey notifiedPlugin = ''key''"
  "GetUser notifiedPlugin ''u1'' = Inr \<lparr>mm_Id = ''u1'', mm_Email = ''a@example.com''\<rparr>"
  "kv notifiedPlugin ''incident_attachments:INC1'' =
     Some (AttachmentJSON \<lparr>att_ID = ''INC1'', att_PostID = ''post-a'',
       att_ChannelID = ''alerts'', att_Incident = exampleIncident\<rparr>)"
  "posts notifiedPlugin ''post-a'' =
     Some ((createIncidentPost examplePlugin exampleIncident ''alerts'')\<lparr>post_Id := ''post-a''\<rparr>)"
  by (simp_all add: notifiedPlugin_def afterCreate_def examplePlugin_def
      KeyIncidentAttachments_def exampleIncident_def)

lemma signedRequest_sel:
  "req_Body (signedRequest s b) = Some b"
  "req_Header (signedRequest s b) ''X-Pagerduty-Signature'' = s"
  by (simp_all add: signedRequest_def)

lemma actionRequest_sel:
  "req_Header (actionRequest u b) ''Mattermost-User-ID'' = u"
  "req_Body (actionRequest u b) = Some b"
  by (simp_all add: actionRequest_def)

lemma exampleDigest_facts:
  "lib examplePlugin = exampleLib" "hmacSHA256 exampleLib = exampleDigest"
  "length (exampleDigest k m) = 32"
  "exampleDigest ''s3cret'' ''{.'' \<noteq> exampleDigest ''s3cret'' ''{}''"
  by (simp_all add: examplePlugin_def exampleLib_def exampleDigest_def)

lemma legacy_facts:
  "req_Method (signedRequest s b) = ''POST''" "req_Body (signedRequest s b) = Some b"
  "jsonUnmarshal (lib examplePlugin) legacyBody
     = Some (JObj [(''messages'',
            JArr [JObj [(''event'', JStr ''incident.triggered''),
                        (''incident'', JObj [(''id'', JStr ''INC1'')])]])])"
  "''event'' \<notin> foldKey ` fst ` set [(''messages'',
            JArr [JObj [(''event'', JStr ''incident.triggered''),
                        (''incident'', JObj [(''id'', JStr ''INC1'')])]])]"
  by (simp_all add: signedRequest_def examplePlugin_def exampleLib_def exampleJSON_def
      legacyDocument_def)

lemma exampleJSON_values:
  "exampleJSON ''{}'' = Some (JObj [])"
  "exampleJSON fetchUsersBody = Some (JObj [(''assignee_id'', JStr ''fetch_users'')])"
  "exampleJSON incidentBody =
     Some (JObj [(''incident'',
                  JObj [(''id'', JStr ''INC1''), (''status'', JStr ''acknowledged'')])])"
  "exampleJSON usersBody =
     Some (JObj [(''users'',
                  JArr [JObj [(''id'', JStr ''PU1''), (''name'', JStr ''Alice'')],
                        JObj [(''id'', JStr ''PU2''), (''name'', JStr ''Bob'')]])])"
  by (simp_all add: exampleJSON_def legacyBody_def fetchUsersBody_def incidentBody_def
      usersBody_def)

lemma example_decodeActionBody:
  "decodeActionBody exampleLib (Some ''{}'') = Inr zeroIncidentActionPayload"
  "decodeActionBody exampleLib (Some fetchUsersBody)
     = Inr (zeroIncidentActionPayload\<lparr>act_AssigneeID := ''fetch_users''\<rparr>)"
  by (simp_all add: decodeActionBody_def exampleLib_def exampleJSON_values
      decodeIncidentActionPayload_def decodeStruct_def decodeString_def mapResult_def
      lowerASCII_def)

lemma example_decodeIncidentResponse:
  "decodeIncidentResponse exampleLib incidentBody
     = Inr (zeroIncident\<lparr>inc_ID := ''INC1'', inc_Status := ''acknowledged''\<rparr>)"
  by (simp add: decodeIncidentResponse_def exampleLib_def exampleJSON_values
      decodeIncident_def decodeStruct_def decodeString_def mapResult_def
      lowerASCII_def split_def)

lemma example_decodeUsersResponse:
  "decodeUsersResponse exampleLib usersBody
     = Inr [\<lparr>usr_ID = ''PU1'', usr_Name = ''Alice'', usr_Email = []\<rparr>,
            \<lparr>usr_ID = ''PU2'', usr_Name = ''Bob'', usr_Email = []\<rparr>]"
  by (simp add: decodeUsersResponse_def exampleLib_def exampleJSON_values
      decodeUser_def decodeStruct_def decodeSlice_def decodeString_def mapResult_def
      zeroUser_def lowerASCII_def)

text \<open>
  A member that occurs twice: the second array is decoded into the elements the first
  one left, so a field the second occurrence does not mention keeps its value.
\<close>

lemma decodeSlice_repeated_member:
  "decodeStruct (\<lambda>k v x. if k = ''users'' then decodeSlice decodeUser zeroUser v x else Inr x)
     (JObj [(''users'', JArr [JObj [(''id'', JStr ''PU1''), (''name'', JStr ''Alice'')]]),
            (''users'', JArr [JObj [(''id'', JStr ''PU2'')]])])
     ([], [])
   = Inr ([\<lparr>usr_ID = ''PU2'', usr_Name = ''Alice'', usr_Email = []\<rparr>], [])"
  by (simp add: decodeUser_def decodeStruct_def decodeSlice_def decodeString_def mapResult_def
      zeroUser_def lowerASCII_def)

lemma example_update_remote:
  "exampleRemote (updateRequest p ''INC1'' s e n)
     = Inr \<lparr>rs_StatusCode = 200, rs_Body = incidentBody\<rparr>"
  by (simp add: exampleRemote_def updateRequest_def setFrom_def setHeaders_def
      pagerDutyAPIBaseURL_def incidentsEndpoint_def)

lemma example_users_remote:
  "exampleRemote (listUsersRequest p) = Inr \<lparr>rs_StatusCode = 200, rs_Body = usersBody\<rparr>"
  by (simp add: exampleRemote_def listUsersRequest_def setHeaders_def
      pagerDutyAPIBaseURL_def usersEndpoint_def)

lemma UpdateIncident_eval:
  assumes "lib p = exampleLib" and "pdRemote p = exampleRemote"
  shows "UpdateIncident p ''INC1'' s e n
     = (Inr (zeroIncident\<lparr>inc_ID := ''INC1'', inc_Status := ''acknowledged''\<rparr>),
        p\<lparr>pdSent := pdSent p @ [updateRequest p ''INC1'' s e n]\<rparr>)"
proof -
  have "urlParse (lib p) u" for u
    using assms(1) by (simp add: exampleLib_def)
  moreover have "pdRemote p (updateRequest p ''INC1'' s e n)
      = Inr \<lparr>rs_StatusCode = 200, rs_Body = incidentBody\<rparr>"
    using assms(2) by (simp add: example_update_remote)
  ultimately show ?thesis
    unfolding UpdateIncident_unfold
    using assms(1) by (simp add: example_decodeIncidentResponse)
qed

lemma ListUsers_eval:
  assumes "lib p = exampleLib" and "pdRemote p = exampleRemote"
  shows "fst (ListUsers p)
     = Inr [\<lparr>usr_ID = ''PU1'', usr_Name = ''Alice'', usr_Email = []\<rparr>,
            \<lparr>usr_ID = ''PU2'', usr_Name = ''Bob'', usr_Email = []\<rparr>]"
  using assms
  by (simp add: ListUsers_def httpDo_def example_users_remote example_decodeUsersResponse)

section \<open>C1: a Triggered event delivered twice\<close>

text \<open>
  C1 (amended).  For every incident X, delivering the same Triggered event for X twice,
  with the channel resolving and neither post creation nor the record write failing,
  succeeds both times and creates two chat messages, one per delivery:
  \<open>processWebhookMessage\<close> sends every Triggered event down the create path, whatever
  the lookup of the record returned.  The store holds exactly one Notification Record
  for X under the key of X; after the second delivery it carries the identifier of the
  second message and the event's snapshot.
\<close>

theorem C1_duplicate_trigger_creates_again:
  fixes p :: Plugin and m :: WebhookMessage
  defines "r1 \<equiv> processWebhookMessage p m"
  defines "r2 \<equiv> processWebhookMessage (snd r1) m"
  assumes "getChannelID p = Inr ch" and "createPostFault p = None" and "kvSetFault p = None"
    and "msg_Event m = EventIncidentTriggered"
  shows "fst r1 = None \<and> fst r2 = None
           \<and> postsCreated (snd r1) = postsCreated p + 1
           \<and> postsCreated (snd r2) = postsCreated p + 2
           \<and> kv (snd r1) = (kv p)(KeyIncidentAttachments @ inc_ID (msg_Incident m) \<mapsto>
                AttachmentJSON \<lparr>att_ID = inc_ID (msg_Incident m),
                  att_PostID = newPostId p (postsCreated p),
                  att_ChannelID = ch, att_Incident = msg_Incident m\<rparr>)
           \<and> kv (snd r2) = (kv p)(KeyIncidentAttachments @ inc_ID (msg_Incident m) \<mapsto>
                AttachmentJSON \<lparr>att_ID = inc_ID (msg_Incident m),
                  att_PostID = newPostId p (postsCreated p + 1),
                  att_ChannelID = ch, att_Incident = msg_Incident m\<rparr>)"
  unfolding r2_def r1_def
  using two_triggers [OF assms(3-6)] by (simp add: afterCreate_sel)

text \<open>The theorem at the example state: the record ends up pointing to the second post.\<close>

theorem C1_duplicate_trigger_witness:
  fixes r1 r2 :: "error option \<times> Plugin"
  defines "r1 \<equiv> processWebhookMessage examplePlugin (exampleMessage ''incident.triggered'')"
  defines "r2 \<equiv> processWebhookMessage (snd r1) (exampleMessage ''incident.triggered'')"
  shows "fst r1 = None \<and> fst r2 = None
      \<and> postsCreated (snd r1) = 1 \<and> postsCreated (snd r2) = 2
      \<and> kv (snd r1) = [''incident_attachments:INC1'' \<mapsto>
           AttachmentJSON \<lparr>att_ID = ''INC1'', att_PostID = ''post-a'',
             att_ChannelID = ''alerts'', att_Incident = exampleIncident\<rparr>]
      \<and> kv (snd r2) = [''incident_attachments:INC1'' \<mapsto>
           AttachmentJSON \<lparr>att_ID = ''INC1'', att_PostID = ''post-b'',
             att_ChannelID = ''alerts'', att_Incident = exampleIncident\<rparr>]"
  unfolding r2_def r1_def
  using C1_duplicate_trigger_creates_again [OF examplePlugin_channel examplePlugin_faults(1,2),
      of "exampleMessage ''incident.triggered''"]
  by (simp add: examplePlugin_state exampleMessage_def EventIncidentTriggered_def
      KeyIncidentAttachments_def exampleIncident_def)

text \<open>
  The claim as stated fails: two deliveries of one Triggered event for INC1 create two
  messages, \<open>post-a\<close> and \<open>post-b\<close>, where the claim allows at most one.
\<close>

theorem C1_duplicate_trigger_counterexample:
  fixes r1 r2 :: "error option \<times> Plugin"
  defines "r1 \<equiv> processWebhookMessage examplePlugin (exampleMessage ''incident.triggered'')"
  defines "r2 \<equiv> processWebhookMessage (snd r1) (exampleMessage ''incident.triggered'')"
  shows "\<not> (postsCreated (snd r2) - postsCreated examplePlugin \<le> 1)
     \<and> postsCreated (snd r2) = 2
     \<and> posts (snd r2) ''post-a'' \<noteq> None
     \<and> posts (snd r2) ''post-b'' \<noteq> None
     \<and> posts examplePlugin ''post-a'' = None
     \<and> posts examplePlugin ''post-b'' = None"
  unfolding r2_def r1_def
  using two_triggers [OF examplePlugin_channel examplePlugin_faults(1,2),
      of "exampleMessage ''incident.triggered''"]
  by (simp add: afterCreate_sel examplePlugin_state exampleMessage_def EventIncidentTriggered_def)

section \<open>C2: local state after an acknowledge or resolve action\<close>

text \<open>
  C2 (amended).  For every acknowledge or resolve action request that passes the
  handler's checks (user header, payload, user lookup) and whose remote update succeeds,
  the handler returns the success response after sending exactly one update request, and
  leaves the stored Notification Records, the posts and the number of created posts as
  they were: the handler discards the incident the remote API returned.  The record and
  the message change only when a webhook event for the incident arrives.
\<close>

theorem C2_action_leaves_local_state:
  assumes "req_Header r ''Mattermost-User-ID'' \<noteq> []"
    and "decodeActionBody (lib p) (req_Body r) = Inr payload"
    and "GetUser p (req_Header r ''Mattermost-User-ID'') = Inr user"
    and "(action = ActionAcknowledge \<and> status = StatusAcknowledged)
       \<or> (action = ActionResolve \<and> status = StatusResolved)"
    and "UpdateIncident p incidentID status (mm_Email user) [] = (Inr incident, p')"
  shows "HandleIncidentAction p r incidentID action = (successResponse, p')
     \<and> p' = p\<lparr>pdSent := pdSent p @ [updateRequest p incidentID status (mm_Email user) []]\<rparr>
     \<and> kv p' = kv p \<and> posts p' = posts p \<and> postsCreated p' = postsCreated p"
proof -
  have "HandleIncidentAction p r incidentID action = (successResponse, p')"
    using HandleIncidentAction_update [OF assms(1-4), of incidentID] assms(5) by simp
  moreover have "p' = p\<lparr>pdSent := pdSent p
      @ [updateRequest p incidentID status (mm_Email user) []]\<rparr>"
    using assms(5) by (rule UpdateIncident_ok)
  ultimately show ?thesis
    using frame_pdSent by metis
qed

text \<open>The theorem at the example state in which INC1 has been notified.\<close>

theorem C2_action_witness:
  "HandleIncidentAction notifiedPlugin (actionRequest ''u1'' ''{}'') ''INC1'' ActionAcknowledge
     = (successResponse,
        notifiedPlugin\<lparr>pdSent :=
          [updateRequest notifiedPlugin ''INC1'' StatusAcknowledged ''a@example.com'' []]\<rparr>)"
proof -
  have user: "req_Header (actionRequest ''u1'' ''{}'') ''Mattermost-User-ID'' \<noteq> []"
    by (simp add: actionRequest_sel)
  have payload: "decodeActionBody (lib notifiedPlugin) (req_Body (actionRequest ''u1'' ''{}''))
      = Inr zeroIncidentActionPayload"
    by (simp add: actionRequest_sel notifiedPlugin_sel example_decodeActionBody)
  have getUser: "GetUser notifiedPlugin (req_Header (actionRequest ''u1'' ''{}'') ''Mattermost-User-ID'')
      = Inr \<lparr>mm_Id = ''u1'', mm_Email = ''a@example.com''\<rparr>"
    by (simp add: actionRequest_sel notifiedPlugin_sel)
  have kind: "(ActionAcknowledge = ActionAcknowledge \<and> StatusAcknowledged = StatusAcknowledged)
       \<or> (ActionAcknowledge = ActionResolve \<and> StatusAcknowledged = StatusResolved)"
    by simp
  have remote: "UpdateIncident notifiedPlugin ''INC1'' StatusAcknowledged
        (mm_Email \<lparr>mm_Id = ''u1'', mm_Email = ''a@example.com''\<rparr>) []
      = (Inr (zeroIncident\<lparr>inc_ID := ''INC1'', inc_Status := ''acknowledged''\<rparr>),
         notifiedPlugin\<lparr>pdSent := pdSent notifiedPlugin
           @ [updateRequest notifiedPlugin ''INC1'' StatusAcknowledged
                (mm_Email \<lparr>mm_Id = ''u1'', mm_Email = ''a@example.com''\<rparr>) []]\<rparr>)"
    by (rule UpdateIncident_eval) (simp_all add: notifiedPlugin_sel)
  show ?thesis
    using C2_action_leaves_local_state [OF user payload getUser kind remote, THEN conjunct1]
    by (simp add: notifiedPlugin_sel)
qed

text \<open>
  The claim as stated fails: the acknowledge action on INC1 succeeds and the remote API
  answers with status "acknowledged", yet the stored snapshot still has status
  "triggered" and the post is the one created for the triggered incident, acknowledge
  button included.
\<close>

theorem C2_action_counterexample:
  "fst (HandleIncidentAction notifiedPlugin (actionRequest ''u1'' ''{}'') ''INC1'' ActionAcknowledge)
     = successResponse
   \<and> fst (UpdateIncident notifiedPlugin ''INC1'' StatusAcknowledged ''a@example.com'' [])
     = Inr (zeroIncident\<lparr>inc_ID := ''INC1'', inc_Status := ''acknowledged''\<rparr>)
   \<and> kv (snd (HandleIncidentAction notifiedPlugin (actionRequest ''u1'' ''{}'') ''INC1''
         ActionAcknowledge)) ''incident_attachments:INC1''
     = Some (AttachmentJSON \<lparr>att_ID = ''INC1'', att_PostID = ''post-a'',
         att_ChannelID = ''alerts'', att_Incident = exampleIncident\<rparr>)
   \<and> inc_Status exampleIncident = ''triggered''
   \<and> posts (snd (HandleIncidentAction notifiedPlugin (actionRequest ''u1'' ''{}'') ''INC1''
         ActionAcknowledge)) ''post-a''
     = Some ((createIncidentPost examplePlugin exampleIncident ''alerts'')\<lparr>post_Id := ''post-a''\<rparr>)
   \<and> ActionAcknowledge \<in> set (map pa_Id (getIncidentActions exampleIncident))"
proof -
  have user: "req_Header (actionRequest ''u1'' ''{}'') ''Mattermost-User-ID'' \<noteq> []"
    by (simp add: actionRequest_sel)
  have payload: "decodeActionBody (lib notifiedPlugin) (req_Body (actionRequest ''u1'' ''{}''))
      = Inr zeroIncidentActionPayload"
    by (simp add: actionRequest_sel notifiedPlugin_sel example_decodeActionBody)
  have getUser: "GetUser notifiedPlugin (req_Header (actionRequest ''u1'' ''{}'') ''Mattermost-User-ID'')
      = Inr \<lparr>mm_Id = ''u1'', mm_Email = ''a@example.com''\<rparr>"
    by (simp add: actionRequest_sel notifiedPlugin_sel)
  have kind: "(ActionAcknowledge = ActionAcknowledge \<and> StatusAcknowledged = StatusAcknowledged)
       \<or> (ActionAcknowledge = ActionResolve \<and> StatusAcknowledged = StatusResolved)"
    by simp
  have remote: "UpdateIncident notifiedPlugin ''INC1'' StatusAcknowledged ''a@example.com'' []
      = (Inr (zeroIncident\<lparr>inc_ID := ''INC1'', inc_Status := ''acknowledged''\<rparr>),
         notifiedPlugin\<lparr>pdSent := pdSent notifiedPlugin
           @ [updateRequest notifiedPlugin ''INC1'' StatusAcknowledged ''a@example.com'' []]\<rparr>)"
    by (rule UpdateIncident_eval) (simp_all add: notifiedPlugin_sel)
  have "HandleIncidentAction notifiedPlugin (actionRequest ''u1'' ''{}'') ''INC1'' ActionAcknowledge
      = (successResponse, notifiedPlugin\<lparr>pdSent := pdSent notifiedPlugin
           @ [updateRequest notifiedPlugin ''INC1'' StatusAcknowledged ''a@example.com'' []]\<rparr>)"
    using HandleIncidentAction_update [OF user payload getUser kind, of "''INC1''"] remote
    by simp
  moreover have "inc_Status exampleIncident = ''triggered''"
    by (simp add: exampleIncident_def)
  moreover have "ActionAcknowledge \<in> set (map pa_Id (getIncidentActions exampleIncident))"
    by (simp add: getIncidentActions_def exampleIncident_def StatusTriggered_def)
  ultimately show ?thesis
    using remote by (simp add: notifiedPlugin_sel)
qed

section \<open>C3: normalisation of V3 events\<close>

text \<open>
  C3.  For every V3 event, \<open>processV3WebhookEvent\<close> processes the message built from the
  event, and returns no error and leaves the state as it is when none is built.  If
  \<open>resource_type\<close> is not "incident" no message is built, whatever the \<open>event_type\<close>.
  Otherwise each of the five listed \<open>event_type\<close> strings builds exactly the message
  with the event's id, the matching event kind and the event's incident, and any other
  \<open>event_type\<close> builds none.  The five event kinds are different from each other.
\<close>

theorem C3_event_normalization:
  "processV3WebhookEvent p event =
     (case processV3WebhookEvent_message event of
        None \<Rightarrow> (None, p)
      | Some message \<Rightarrow> processWebhookMessage p message)
   \<and> (ev_ResourceType event \<noteq> ''incident'' \<longrightarrow>
        processV3WebhookEvent_message event = None
        \<and> processV3WebhookEvent p event = (None, p))
   \<and> (ev_ResourceType event = ''incident'' \<longrightarrow>
        (ev_EventType event = ''incident.triggered'' \<longrightarrow>
           processV3WebhookEvent_message event =
             Some \<lparr>msg_ID = ev_ID event, msg_Event = EventIncidentTriggered,
                   msg_Incident = ev_Data event\<rparr>)
      \<and> (ev_EventType event = ''incident.acknowledged'' \<longrightarrow>
           processV3WebhookEvent_message event =
             Some \<lparr>msg_ID = ev_ID event, msg_Event = EventIncidentAcknowledged,
                   msg_Incident = ev_Data event\<rparr>)
      \<and> (ev_EventType event = ''incident.resolved'' \<longrightarrow>
           processV3WebhookEvent_message event =
             Some \<lparr>msg_ID = ev_ID event, msg_Event = EventIncidentResolved,
                   msg_Incident = ev_Data event\<rparr>)
      \<and> (ev_EventType event = ''incident.reassigned'' \<longrightarrow>
           processV3WebhookEvent_message event =
             Some \<lparr>msg_ID = ev_ID event, msg_Event = EventIncidentReassigned,
                   msg_Incident = ev_Data event\<rparr>)
      \<and> (ev_EventType event = ''incident.status_update_published'' \<longrightarrow>
           processV3WebhookEvent_message event =
             Some \<lparr>msg_ID = ev_ID event, msg_Event = EventIncidentStatusUpdated,
                   msg_Incident = ev_Data event\<rparr>)
      \<and> (ev_EventType event \<notin> {''incident.triggered'', ''incident.acknowledged'',
             ''incident.resolved'', ''incident.reassigned'', ''incident.status_update_published''} \<longrightarrow>
           processV3WebhookEvent_message event = None
           \<and> processV3WebhookEvent p event = (None, p)))
   \<and> distinct [EventIncidentTriggered, EventIncidentAcknowledged, EventIncidentResolved,
        EventIncidentReassigned, EventIncidentStatusUpdated]"
  by (simp add: processV3WebhookEvent_def processV3WebhookEvent_message_def
      EventIncidentTriggered_def EventIncidentAcknowledged_def EventIncidentResolved_def
      EventIncidentReassigned_def EventIncidentStatusUpdated_def)

text \<open>
  Three instances: a service event and an unlisted incident event build no message and
  change nothing; a resolved incident builds the Resolved message, which is processed.
\<close>

theorem C3_event_normalization_witness:
  "processV3WebhookEvent_message
      (zeroV3Event\<lparr>ev_EventType := ''incident.triggered'', ev_ResourceType := ''service''\<rparr>)
     = None
   \<and> processV3WebhookEvent examplePlugin
      (zeroV3Event\<lparr>ev_EventType := ''incident.triggered'', ev_ResourceType := ''service''\<rparr>)
     = (None, examplePlugin)
   \<and> processV3WebhookEvent_message
      (zeroV3Event\<lparr>ev_EventType := ''incident.annotated'', ev_ResourceType := ''incident''\<rparr>)
     = None
   \<and> processV3WebhookEvent examplePlugin
      (zeroV3Event\<lparr>ev_EventType := ''incident.annotated'', ev_ResourceType := ''incident''\<rparr>)
     = (None, examplePlugin)
   \<and> processV3WebhookEvent_message
      (zeroV3Event\<lparr>ev_ID := ''EV1'', ev_EventType := ''incident.resolved'',
         ev_ResourceType := ''incident'', ev_Data := exampleIncident\<rparr>)
     = Some \<lparr>msg_ID = ''EV1'', msg_Event = ''incident.resolved'', msg_Incident = exampleIncident\<rparr>
   \<and> processV3WebhookEvent examplePlugin
      (zeroV3Event\<lparr>ev_ID := ''EV1'', ev_EventType := ''incident.resolved'',
         ev_ResourceType := ''incident'', ev_Data := exampleIncident\<rparr>)
     = processWebhookMessage examplePlugin
         \<lparr>msg_ID = ''EV1'', msg_Event = ''incident.resolved'', msg_Incident = exampleIncident\<rparr>"
  using C3_event_normalization [of examplePlugin
      "zeroV3Event\<lparr>ev_EventType := ''incident.triggered'', ev_ResourceType := ''service''\<rparr>"]
    C3_event_normalization [of examplePlugin
      "zeroV3Event\<lparr>ev_EventType := ''incident.annotated'', ev_ResourceType := ''incident''\<rparr>"]
    C3_event_normalization [of examplePlugin
      "zeroV3Event\<lparr>ev_ID := ''EV1'', ev_EventType := ''incident.resolved'',
         ev_ResourceType := ''incident'', ev_Data := exampleIncident\<rparr>"]
  by (simp add: zeroV3Event_def EventIncidentResolved_def)

section \<open>The signature of a body under a secret\<close>

text \<open>
  For every readable body and secret: the signature \<open>v1=\<close> followed by the hex
  digest of the HMAC of the body under the secret verifies; verification succeeds exactly
  when the header is non-empty and, with a leading \<open>v1=\<close> stripped, equals that hex
  digest; and a signature made for \<open>secret'\<close> and \<open>body'\<close> verifies against \<open>secret\<close>
  and \<open>body\<close> exactly when the two digests are equal.  HMAC-SHA256 is a parameter
  here, so nothing is said about which changes of body or secret change the digest: that
  a flipped byte always does (the last clause of C4) is neither proved nor refuted.
\<close>

lemma verifyWebhookSignature_round_trip:
  assumes "req_Body r = Some body"
  shows "(req_Header r ''X-Pagerduty-Signature'' = ''v1='' @ hexDigest (lib p) secret body \<longrightarrow>
            verifyWebhookSignature p r secret = None)
       \<and> (verifyWebhookSignature p r secret = None \<longleftrightarrow>
            req_Header r ''X-Pagerduty-Signature'' \<noteq> []
            \<and> TrimPrefix (req_Header r ''X-Pagerduty-Signature'') ''v1=''
                = hexDigest (lib p) secret body)
       \<and> (req_Header r ''X-Pagerduty-Signature'' = ''v1='' @ hexDigest (lib p) secret' body' \<longrightarrow>
            (verifyWebhookSignature p r secret = None \<longleftrightarrow>
               hmacSHA256 (lib p) secret' body' = hmacSHA256 (lib p) secret body))"
proof -
  have iff: "verifyWebhookSignature p r secret = None \<longleftrightarrow>
      req_Header r ''X-Pagerduty-Signature'' \<noteq> []
      \<and> TrimPrefix (req_Header r ''X-Pagerduty-Signature'') ''v1=''
          = hexDigest (lib p) secret body"
    using assms by (rule verifyWebhookSignature_iff)
  have own: "req_Header r ''X-Pagerduty-Signature'' = ''v1='' @ hexDigest (lib p) secret body \<longrightarrow>
      verifyWebhookSignature p r secret = None"
    unfolding iff using TrimPrefix_append [of "''v1=''"] by simp
  have other: "req_Header r ''X-Pagerduty-Signature'' = ''v1='' @ hexDigest (lib p) secret' body' \<longrightarrow>
      (verifyWebhookSignature p r secret = None \<longleftrightarrow>
         hmacSHA256 (lib p) secret' body' = hmacSHA256 (lib p) secret body)"
    unfolding iff using TrimPrefix_append [of "''v1=''"] EncodeToString_inj by auto
  from own iff other show ?thesis by blast
qed

text \<open>
  An instance with the stand-in digest of the examples: the signed body verifies, the
  same signature on a body with one byte changed does not.
\<close>

lemma verifyWebhookSignature_round_trip_example:
  "verifyWebhookSignature examplePlugin
       (signedRequest (''v1='' @ hexDigest exampleLib ''s3cret'' ''{}'') ''{}'') ''s3cret'' = None
   \<and> verifyWebhookSignature examplePlugin
       (signedRequest (''v1='' @ hexDigest exampleLib ''s3cret'' ''{}'') ''{.'') ''s3cret'' \<noteq> None"
proof -
  have "verifyWebhookSignature examplePlugin
       (signedRequest (''v1='' @ hexDigest exampleLib ''s3cret'' ''{}'') ''{}'') ''s3cret'' = None"
    using verifyWebhookSignature_round_trip [OF signedRequest_sel(1),
        of "''v1='' @ hexDigest exampleLib ''s3cret'' ''{}''" "''{}''" examplePlugin "''s3cret''",
        THEN conjunct1]
    by (simp only: signedRequest_sel exampleDigest_facts(1) simp_thms)
  moreover have "verifyWebhookSignature examplePlugin
       (signedRequest (''v1='' @ hexDigest exampleLib ''s3cret'' ''{}'') ''{.'') ''s3cret'' \<noteq> None"
    using verifyWebhookSignature_round_trip [OF signedRequest_sel(1),
        of "''v1='' @ hexDigest exampleLib ''s3cret'' ''{}''" "''{.''" examplePlugin "''s3cret''"
           "''s3cret''" "''{}''", THEN conjunct2, THEN conjunct2]
      exampleDigest_facts(4)
    by (simp only: signedRequest_sel exampleDigest_facts(1,2) simp_thms)
      (simp add: eq_commute)
  ultimately show ?thesis by simp
qed

section \<open>C5: the legacy wire shape\<close>

text \<open>
  C5 (amended).  The webhook endpoint decodes the body as a V3 payload only.  A POST
  whose body is a JSON object without an \<open>event\<close> member, as the legacy payload with
  its list of messages is, decodes to the empty envelope, whose \<open>resource_type\<close> is not
  "incident": no message is processed however many the list holds, the state does not
  change, and the answer is 200 with an empty body.
\<close>

theorem C5_legacy_payload_ignored:
  assumes "req_Method r = ''POST''" and "req_Body r = Some body"
    and "jsonUnmarshal (lib p) body = Some (JObj kvs)"
    and "''event'' \<notin> foldKey ` fst ` set kvs"
  shows "unmarshalV3WebhookPayload (lib p) body = Inr zeroV3WebhookPayload
     \<and> processV3WebhookEvent p (v3_Event zeroV3WebhookPayload) = (None, p)
     \<and> HandleWebhook p r = (\<lparr>res_StatusCode = 200, res_Body = NoBody\<rparr>, p)"
proof -
  have "unmarshalV3WebhookPayload (lib p) body = Inr zeroV3WebhookPayload"
    using assms(3) decodeV3WebhookPayload_no_event [OF assms(4)]
    by (simp add: unmarshalV3WebhookPayload_def mapResult_def)
  moreover have "processV3WebhookEvent p (v3_Event zeroV3WebhookPayload) = (None, p)"
    by (simp add: zeroV3WebhookPayload_def processV3WebhookEvent_zero)
  ultimately show ?thesis
    using HandleWebhook_no_event [OF assms] by simp
qed

text \<open>The theorem at a legacy payload with one message.\<close>

theorem C5_legacy_payload_witness:
  "HandleWebhook examplePlugin (signedRequest [] legacyBody)
     = (\<lparr>res_StatusCode = 200, res_Body = NoBody\<rparr>, examplePlugin)"
  using C5_legacy_payload_ignored [OF legacy_facts, of "[]"] by simp

text \<open>
  The claim as stated fails: the legacy payload carries one message for INC1, and the
  endpoint answers 200 without creating a post or a record, while processing that one
  message as a canonical event creates a post.
\<close>

theorem C5_legacy_payload_counterexample:
  "jsonUnmarshal (lib examplePlugin) legacyBody = Some legacyDocument
   \<and> legacyDocument = JObj [(''messages'',
        JArr [JObj [(''event'', JStr ''incident.triggered''),
                    (''incident'', JObj [(''id'', JStr ''INC1'')])]])]
   \<and> fst (HandleWebhook examplePlugin (signedRequest [] legacyBody))
       = \<lparr>res_StatusCode = 200, res_Body = NoBody\<rparr>
   \<and> postsCreated (snd (HandleWebhook examplePlugin (signedRequest [] legacyBody))) = 0
   \<and> kv (snd (HandleWebhook examplePlugin (signedRequest [] legacyBody)))
        ''incident_attachments:INC1'' = None
   \<and> postsCreated (snd (processWebhookMessage examplePlugin
        \<lparr>msg_ID = [], msg_Event = ''incident.triggered'',
         msg_Incident = zeroIncident\<lparr>inc_ID := ''INC1''\<rparr>\<rparr>)) = 1"
proof -
  have "processWebhookMessage examplePlugin
        \<lparr>msg_ID = [], msg_Event = ''incident.triggered'',
         msg_Incident = zeroIncident\<lparr>inc_ID := ''INC1''\<rparr>\<rparr>
      = handleTriggeredIncident examplePlugin (zeroIncident\<lparr>inc_ID := ''INC1''\<rparr>) ''alerts''"
    using processWebhookMessage_triggered [OF examplePlugin_channel]
    by (simp add: EventIncidentTriggered_def)
  then have "postsCreated (snd (processWebhookMessage examplePlugin
        \<lparr>msg_ID = [], msg_Event = ''incident.triggered'',
         msg_Incident = zeroIncident\<lparr>inc_ID := ''INC1''\<rparr>\<rparr>)) = 1"
    by (simp add: handleTriggeredIncident_ok examplePlugin_faults afterCreate_sel
        examplePlugin_state)
  moreover have "jsonUnmarshal (lib examplePlugin) legacyBody = Some legacyDocument"
    by (simp add: examplePlugin_def exampleLib_def exampleJSON_def)
  ultimately show ?thesis
    using HandleWebhook_no_event [OF legacy_facts, of "[]"]
    by (simp add: examplePlugin_state legacyDocument_def)
qed

section \<open>C6: an update event without a record\<close>



section \<open>C7: a record whose message was deleted\<close>

text \<open>
  C7 (amended).  For every record whose post identifier names no existing post, with
  the channel resolving and neither post creation nor the record write failing, each of
  the five events for the incident succeeds: a new post is created and the record is
  overwritten with the new post's identifier and the event's snapshot.  The post goes to
  the record's channel for the four update events when the record can be read, and to
  the channel the configuration resolves to for a Triggered event, or when reading the
  record fails.
\<close>

theorem C7_stale_message_recreated:
  assumes "kv p (KeyIncidentAttachments @ inc_ID incident) = Some (AttachmentJSON a)"
    and "posts p (att_PostID a) = None"
    and "getChannelID p = Inr ch"
    and "createPostFault p = None" and "kvSetFault p = None"
    and "e = EventIncidentTriggered \<or> e = EventIncidentAcknowledged
       \<or> e = EventIncidentResolved \<or> e = EventIncidentReassigned
       \<or> e = EventIncidentStatusUpdated"
    and "target = (if e = EventIncidentTriggered \<or> kvGetFault p \<noteq> None then ch
                   else att_ChannelID a)"
  shows "processWebhookMessage p \<lparr>msg_ID = i, msg_Event = e, msg_Incident = incident\<rparr>
           = (None, afterCreate p incident target)
       \<and> postsCreated (afterCreate p incident target) = postsCreated p + 1
       \<and> posts (afterCreate p incident target) (newPostId p (postsCreated p))
           = Some ((createIncidentPost p incident target)
               \<lparr>post_Id := newPostId p (postsCreated p)\<rparr>)
       \<and> post_ChannelId (createIncidentPost p incident target) = target
       \<and> kv (afterCreate p incident target)
           = (kv p)(KeyIncidentAttachments @ inc_ID incident \<mapsto>
               AttachmentJSON \<lparr>att_ID = inc_ID incident,
                 att_PostID = newPostId p (postsCreated p),
                 att_ChannelID = target, att_Incident = incident\<rparr>)"
proof -
  have run: "processWebhookMessage p \<lparr>msg_ID = i, msg_Event = e, msg_Incident = incident\<rparr>
      = handleTriggeredIncident p incident target"
  proof (cases "e = EventIncidentTriggered")
    case True
    then show ?thesis
      using processWebhookMessage_triggered [of p ch] assms(3,7) by simp
  next
    case False
    show ?thesis
    proof (cases "kvGetFault p = None")
      case True
      have "processWebhookMessage p \<lparr>msg_ID = i, msg_Event = e, msg_Incident = incident\<rparr>
          = updateIncidentPost p incident a"
        using processWebhookMessage_record
          [of p "\<lparr>msg_ID = i, msg_Event = e, msg_Incident = incident\<rparr>" a ch]
          assms(1,3,6) True False
        by simp
      then show ?thesis
        using True False assms(2,7) by (simp add: updateIncidentPost_stale)
    next
      case fails: False
      then show ?thesis
        using processWebhookMessage_read_fails
          [of p ch "\<lparr>msg_ID = i, msg_Event = e, msg_Incident = incident\<rparr>"]
          assms(3,6,7)
        by simp
    qed
  qed
  show ?thesis
    unfolding run
    using assms(4,5)
    by (simp add: handleTriggeredIncident_ok afterCreate_sel createIncidentPost_def)
qed

text \<open>
  A Resolved event for INC1, whose record names a deleted post in another channel: with
  the record readable the new post goes to the record's channel, with the read failing it
  goes to the configured channel.
\<close>

theorem C7_stale_message_witness:
  "processWebhookMessage stalePlugin (exampleMessage EventIncidentResolved)
     = (None, afterCreate stalePlugin exampleIncident ''old-channel'')
   \<and> postsCreated (afterCreate stalePlugin exampleIncident ''old-channel'') = 1
   \<and> kv (afterCreate stalePlugin exampleIncident ''old-channel'')
       = [''incident_attachments:INC1'' \<mapsto>
           AttachmentJSON \<lparr>att_ID = ''INC1'', att_PostID = ''post-a'',
             att_ChannelID = ''old-channel'', att_Incident = exampleIncident\<rparr>]
   \<and> processWebhookMessage (stalePlugin\<lparr>kvGetFault := Some ''unavailable''\<rparr>)
        (exampleMessage EventIncidentResolved)
     = (None, afterCreate (stalePlugin\<lparr>kvGetFault := Some ''unavailable''\<rparr>)
                exampleIncident ''alerts'')"
proof -
  let ?a = "\<lparr>att_ID = ''INC1'', att_PostID = ''deleted-post'',
          att_ChannelID = ''old-channel'', att_Incident = exampleIncident\<rparr>"
  let ?q = "stalePlugin\<lparr>kvGetFault := Some ''unavailable''\<rparr>"
  have id: "inc_ID exampleIncident = ''INC1''"
    by (simp add: exampleIncident_def)
  have rec: "kv stalePlugin (KeyIncidentAttachments @ inc_ID exampleIncident)
      = Some (AttachmentJSON ?a)"
    by (simp add: stalePlugin_facts id KeyIncidentAttachments_def)
  have stale: "posts stalePlugin (att_PostID ?a) = None"
    by (simp add: stalePlugin_facts)
  have kind: "EventIncidentResolved = EventIncidentTriggered
       \<or> EventIncidentResolved = EventIncidentAcknowledged
       \<or> EventIncidentResolved = EventIncidentResolved
       \<or> EventIncidentResolved = EventIncidentReassigned
       \<or> EventIncidentResolved = EventIncidentStatusUpdated"
    by simp
  have target: "''old-channel'' = (if EventIncidentResolved = EventIncidentTriggered
         \<or> kvGetFault stalePlugin \<noteq> None then ''alerts''
       else att_ChannelID ?a)"
    by (simp add: EventIncidentResolved_def EventIncidentTriggered_def stalePlugin_facts)
  note t = C7_stale_message_recreated [OF rec stale stalePlugin_facts(1-3)
      kind target, of "''EV1''"]
  have rec': "kv ?q (KeyIncidentAttachments @ inc_ID exampleIncident) = Some (AttachmentJSON ?a)"
    using rec by simp
  have stale': "posts ?q (att_PostID ?a) = None"
    using stale by simp
  have ch': "getChannelID ?q = Inr ''alerts''"
    using stalePlugin_facts(1) by (simp add: getChannelID_kvGetFault)
  have faults': "createPostFault ?q = None" "kvSetFault ?q = None"
    using stalePlugin_facts(2,3) by simp_all
  have target': "''alerts'' = (if EventIncidentResolved = EventIncidentTriggered
         \<or> kvGetFault ?q \<noteq> None then ''alerts''
       else att_ChannelID ?a)"
    by simp
  note t' = C7_stale_message_recreated [OF rec' stale' ch' faults' kind target', of "''EV1''"]
  from t have "processWebhookMessage stalePlugin (exampleMessage EventIncidentResolved)
     = (None, afterCreate stalePlugin exampleIncident ''old-channel'')"
    unfolding exampleMessage_def by simp
  moreover from t have "postsCreated (afterCreate stalePlugin exampleIncident ''old-channel'') = 1"
    by (simp add: stalePlugin_facts)
  moreover from t have "kv (afterCreate stalePlugin exampleIncident ''old-channel'')
       = [''incident_attachments:INC1'' \<mapsto>
           AttachmentJSON \<lparr>att_ID = ''INC1'', att_PostID = ''post-a'',
             att_ChannelID = ''old-channel'', att_Incident = exampleIncident\<rparr>]"
    by (auto simp add: stalePlugin_facts id KeyIncidentAttachments_def)
  moreover from t' have "processWebhookMessage ?q (exampleMessage EventIncidentResolved)
     = (None, afterCreate ?q exampleIncident ''alerts'')"
    unfolding exampleMessage_def by simp
  ultimately show ?thesis by simp
qed

text \<open>
  The claim as stated fails for a Triggered event: the record of INC1 names the channel
  \<open>old-channel\<close>, and the new post is created in \<open>alerts\<close>, the configured channel.
\<close>

theorem C7_stale_message_counterexample:
  "att_ChannelID \<lparr>att_ID = ''INC1'', att_PostID = ''deleted-post'',
          att_ChannelID = ''old-channel'', att_Incident = exampleIncident\<rparr> = ''old-channel''
   \<and> kv stalePlugin ''incident_attachments:INC1''
       = Some (AttachmentJSON \<lparr>att_ID = ''INC1'', att_PostID = ''deleted-post'',
          att_ChannelID = ''old-channel'', att_Incident = exampleIncident\<rparr>)
   \<and> posts stalePlugin ''deleted-post'' = None
   \<and> fst (processWebhookMessage stalePlugin (exampleMessage EventIncidentTriggered)) = None
   \<and> map_option post_ChannelId
        (posts (snd (processWebhookMessage stalePlugin (exampleMessage EventIncidentTriggered)))
           ''post-a'') = Some ''alerts''
   \<and> map_option post_ChannelId
        (posts (snd (processWebhookMessage stalePlugin (exampleMessage EventIncidentTriggered)))
           ''post-a'') \<noteq> Some ''old-channel''"
proof -
  have "processWebhookMessage stalePlugin (exampleMessage EventIncidentTriggered)
      = handleTriggeredIncident stalePlugin exampleIncident ''alerts''"
    using processWebhookMessage_triggered [of stalePlugin "''alerts''"
        "exampleMessage EventIncidentTriggered"]
    by (simp add: stalePlugin_facts exampleMessage_def)
  then show ?thesis
    by (simp add: handleTriggeredIncident_ok stalePlugin_facts afterCreate_sel
        createIncidentPost_def)
qed

section \<open>C8: validation of actions\<close>

text \<open>
  C8 (amended).  The handler checks the request before it looks at the action: without
  a \<open>Mattermost-User-ID\<close> header it answers 401 "Not authorized", with a payload that
  does not decode 400 "Invalid request", with a user that cannot be looked up 500
  "Failed to get user"; in these cases nothing is sent to the PagerDuty API and the state
  is unchanged, whatever the action.  For a request that passes the three checks: an
  action other than acknowledge, resolve and reassign is answered 400 "Invalid action",
  sends nothing and changes nothing; a reassign request whose assignee is
  \<open>fetch_users\<close> sends exactly one request, the GET of the users list, hence no
  assignment, and is answered 200 with the users as the options (text the name, value the
  id) of the reassign selector, the options being null for an empty list, or 500 "Failed
  to list users" when the call fails.
\<close>

theorem C8_action_validation:
  "(req_Header r ''Mattermost-User-ID'' = [] \<longrightarrow>
      HandleIncidentAction p r incidentID action
        = (\<lparr>res_StatusCode = 401, res_Body = TextBody ''Not authorized''\<rparr>, p))
   \<and> (req_Header r ''Mattermost-User-ID'' \<noteq> []
        \<and> decodeActionBody (lib p) (req_Body r) = Inl err \<longrightarrow>
      HandleIncidentAction p r incidentID action
        = (\<lparr>res_StatusCode = 400, res_Body = TextBody ''Invalid request''\<rparr>, p))
   \<and> (req_Header r ''Mattermost-User-ID'' \<noteq> []
        \<and> decodeActionBody (lib p) (req_Body r) = Inr payload
        \<and> GetUser p (req_Header r ''Mattermost-User-ID'') = Inl appErr \<longrightarrow>
      HandleIncidentAction p r incidentID action
        = (\<lparr>res_StatusCode = 500, res_Body = TextBody ''Failed to get user''\<rparr>, p))
   \<and> (req_Header r ''Mattermost-User-ID'' \<noteq> []
        \<and> decodeActionBody (lib p) (req_Body r) = Inr payload
        \<and> GetUser p (req_Header r ''Mattermost-User-ID'') = Inr user \<longrightarrow>
      (action \<notin> {''acknowledge'', ''resolve'', ''reassign''} \<longrightarrow>
         HandleIncidentAction p r incidentID action
           = (\<lparr>res_StatusCode = 400, res_Body = TextBody ''Invalid action''\<rparr>, p))
      \<and> (act_AssigneeID payload = ''fetch_users'' \<longrightarrow>
           snd (HandleIncidentAction p r incidentID ''reassign'')
             = p\<lparr>pdSent := pdSent p @ [listUsersRequest p]\<rparr>
           \<and> rq_Method (listUsersRequest p) = ''GET''
           \<and> rq_URL (listUsersRequest p) = ''https://api.pagerduty.com/users''
           \<and> (fst (ListUsers p) = Inr users \<longrightarrow>
                fst (HandleIncidentAction p r incidentID ''reassign'')
                  = \<lparr>res_StatusCode = 200,
                     res_Body = JSONBody
                       (JObj [(''update'',
                         JObj [(''props'',
                           JObj [(''attachments'',
                             JArr [JObj [(''actions'',
                               JArr [JObj [(''id'', JStr ''reassign''),
                                           (''name'', JStr ''Reassign''),
                                           (''options'',
                                            (if users = [] then JNull
                                             else JArr (map (\<lambda>user.
                                                 JObj [(''text'', JStr (usr_Name user)),
                                                       (''value'', JStr (usr_ID user))]) users))),
                                           (''type'', JStr ''select'')]])]])])])])\<rparr>)
           \<and> (fst (ListUsers p) = Inl listErr \<longrightarrow>
                fst (HandleIncidentAction p r incidentID ''reassign'')
                  = \<lparr>res_StatusCode = 500, res_Body = TextBody ''Failed to list users''\<rparr>)))"
proof -
  have noUser: "HandleIncidentAction p r incidentID action
        = (\<lparr>res_StatusCode = 401, res_Body = TextBody ''Not authorized''\<rparr>, p)"
    if "req_Header r ''Mattermost-User-ID'' = []"
    using that by (simp add: HandleIncidentAction_def Let_def httpError_def)
  have noPayload: "HandleIncidentAction p r incidentID action
        = (\<lparr>res_StatusCode = 400, res_Body = TextBody ''Invalid request''\<rparr>, p)"
    if "req_Header r ''Mattermost-User-ID'' \<noteq> []"
      "decodeActionBody (lib p) (req_Body r) = Inl err"
    using that by (simp add: HandleIncidentAction_def Let_def httpError_def)
  have noLookup: "HandleIncidentAction p r incidentID action
        = (\<lparr>res_StatusCode = 500, res_Body = TextBody ''Failed to get user''\<rparr>, p)"
    if "req_Header r ''Mattermost-User-ID'' \<noteq> []"
      "decodeActionBody (lib p) (req_Body r) = Inr payload"
      "GetUser p (req_Header r ''Mattermost-User-ID'') = Inl appErr"
    using that by (simp add: HandleIncidentAction_def Let_def httpError_def)
  have invalid: "HandleIncidentAction p r incidentID action
        = (\<lparr>res_StatusCode = 400, res_Body = TextBody ''Invalid action''\<rparr>, p)"
    if "action \<notin> {''acknowledge'', ''resolve'', ''reassign''}"
      "req_Header r ''Mattermost-User-ID'' \<noteq> []"
      "decodeActionBody (lib p) (req_Body r) = Inr payload"
      "GetUser p (req_Header r ''Mattermost-User-ID'') = Inr user"
    using that
    by (simp add: HandleIncidentAction_def Let_def httpError_def ActionAcknowledge_def
        ActionResolve_def ActionReassign_def)
  have fetch: "HandleIncidentAction p r incidentID ''reassign''
      = (case ListUsers p of
           (Inl e, p') \<Rightarrow> (httpError ''Failed to list users'' 500, p')
         | (Inr us, p') \<Rightarrow> (fetchUsersResponse us, p'))"
    if "req_Header r ''Mattermost-User-ID'' \<noteq> []"
      "decodeActionBody (lib p) (req_Body r) = Inr payload"
      "GetUser p (req_Header r ''Mattermost-User-ID'') = Inr user"
      "act_AssigneeID payload = ''fetch_users''"
    using that
    by (simp add: HandleIncidentAction_def Let_def performReassign_def ActionAcknowledge_def
        ActionResolve_def ActionReassign_def)
  have sent: "snd (case ListUsers p of
           (Inl e, p') \<Rightarrow> (httpError ''Failed to list users'' 500, p')
         | (Inr us, p') \<Rightarrow> (fetchUsersResponse us, p')) = snd (ListUsers p)"
    by (simp split: prod.splits sum.splits)
  have resp: "fst (ListUsers p) = Inr users \<Longrightarrow>
      fst (case ListUsers p of
           (Inl e, p') \<Rightarrow> (httpError ''Failed to list users'' 500, p')
         | (Inr us, p') \<Rightarrow> (fetchUsersResponse us, p')) = fetchUsersResponse users"
    by (cases "ListUsers p") (auto split: sum.splits)
  have failed: "fst (ListUsers p) = Inl listErr \<Longrightarrow>
      fst (case ListUsers p of
           (Inl e, p') \<Rightarrow> (httpError ''Failed to list users'' 500, p')
         | (Inr us, p') \<Rightarrow> (fetchUsersResponse us, p'))
        = \<lparr>res_StatusCode = 500, res_Body = TextBody ''Failed to list users''\<rparr>"
    by (cases "ListUsers p") (auto simp add: httpError_def split: sum.splits)
  have body: "fetchUsersResponse users
      = \<lparr>res_StatusCode = 200,
         res_Body = JSONBody
           (JObj [(''update'',
             JObj [(''props'',
               JObj [(''attachments'',
                 JArr [JObj [(''actions'',
                   JArr [JObj [(''id'', JStr ''reassign''),
                               (''name'', JStr ''Reassign''),
                               (''options'',
                                (if users = [] then JNull
                                 else JArr (map (\<lambda>user.
                                     JObj [(''text'', JStr (usr_Name user)),
                                           (''value'', JStr (usr_ID user))]) users))),
                               (''type'', JStr ''select'')]])]])])])])\<rparr>"
    by (simp add: fetchUsersResponse_def userOptions_def ActionReassign_def Let_def)
  have req: "rq_Method (listUsersRequest p) = ''GET''"
    "rq_URL (listUsersRequest p) = ''https://api.pagerduty.com/users''"
    by (simp_all add: listUsersRequest_def setHeaders_def pagerDutyAPIBaseURL_def
        usersEndpoint_def)
  show ?thesis
  proof (intro conjI impI)
    show "HandleIncidentAction p r incidentID action
        = (\<lparr>res_StatusCode = 401, res_Body = TextBody ''Not authorized''\<rparr>, p)"
      if "req_Header r ''Mattermost-User-ID'' = []"
      using that by (rule noUser)
  next
    show "HandleIncidentAction p r incidentID action
        = (\<lparr>res_StatusCode = 400, res_Body = TextBody ''Invalid request''\<rparr>, p)"
      if "req_Header r ''Mattermost-User-ID'' \<noteq> []
        \<and> decodeActionBody (lib p) (req_Body r) = Inl err"
      using that noPayload by simp
  next
    show "HandleIncidentAction p r incidentID action
        = (\<lparr>res_StatusCode = 500, res_Body = TextBody ''Failed to get user''\<rparr>, p)"
      if "req_Header r ''Mattermost-User-ID'' \<noteq> []
        \<and> decodeActionBody (lib p) (req_Body r) = Inr payload
        \<and> GetUser p (req_Header r ''Mattermost-User-ID'') = Inl appErr"
      using that noLookup by simp
  next
    assume checks: "req_Header r ''Mattermost-User-ID'' \<noteq> []
        \<and> decodeActionBody (lib p) (req_Body r) = Inr payload
        \<and> GetUser p (req_Header r ''Mattermost-User-ID'') = Inr user"
    show "HandleIncidentAction p r incidentID action
           = (\<lparr>res_StatusCode = 400, res_Body = TextBody ''Invalid action''\<rparr>, p)"
      if "action \<notin> {''acknowledge'', ''resolve'', ''reassign''}"
      using that checks invalid by simp
    assume sentinel: "act_AssigneeID payload = ''fetch_users''"
    note run = fetch [OF checks [THEN conjunct1] checks [THEN conjunct2, THEN conjunct1]
        checks [THEN conjunct2, THEN conjunct2] sentinel]
    show "snd (HandleIncidentAction p r incidentID ''reassign'')
             = p\<lparr>pdSent := pdSent p @ [listUsersRequest p]\<rparr>"
      unfolding run sent by (rule ListUsers_sent)
    show "rq_Method (listUsersRequest p) = ''GET''"
      by (rule req(1))
    show "rq_URL (listUsersRequest p) = ''https://api.pagerduty.com/users''"
      by (rule req(2))
    show "fst (HandleIncidentAction p r incidentID ''reassign'')
        = \<lparr>res_StatusCode = 200,
           res_Body = JSONBody
             (JObj [(''update'',
               JObj [(''props'',
                 JObj [(''attachments'',
                   JArr [JObj [(''actions'',
                     JArr [JObj [(''id'', JStr ''reassign''),
                                 (''name'', JStr ''Reassign''),
                                 (''options'',
                                  (if users = [] then JNull
                                   else JArr (map (\<lambda>user.
                                       JObj [(''text'', JStr (usr_Name user)),
                                             (''value'', JStr (usr_ID user))]) users))),
                                 (''type'', JStr ''select'')]])]])])])])\<rparr>"
      if "fst (ListUsers p) = Inr users"
      unfolding run resp [OF that] by (rule body)
    show "fst (HandleIncidentAction p r incidentID ''reassign'')
        = \<lparr>res_StatusCode = 500, res_Body = TextBody ''Failed to list users''\<rparr>"
      if "fst (ListUsers p) = Inl listErr"
      unfolding run by (rule failed [OF that])
  qed
qed

text \<open>
  The action "launch_missiles" and a fetch_users request of the known user \<open>u1\<close>, and
  the action "launch_missiles" without a user header, at the example state.
\<close>

theorem C8_action_validation_witness:
  "HandleIncidentAction examplePlugin (actionRequest ''u1'' ''{}'') ''INC1'' ''launch_missiles''
     = (\<lparr>res_StatusCode = 400, res_Body = TextBody ''Invalid action''\<rparr>, examplePlugin)
   \<and> HandleIncidentAction examplePlugin (actionRequest ''u1'' fetchUsersBody) ''INC1'' ''reassign''
     = (\<lparr>res_StatusCode = 200,
         res_Body = JSONBody
           (JObj [(''update'',
             JObj [(''props'',
               JObj [(''attachments'',
                 JArr [JObj [(''actions'',
                   JArr [JObj [(''id'', JStr ''reassign''),
                               (''name'', JStr ''Reassign''),
                               (''options'',
                                JArr [JObj [(''text'', JStr ''Alice''), (''value'', JStr ''PU1'')],
                                      JObj [(''text'', JStr ''Bob''), (''value'', JStr ''PU2'')]]),
                               (''type'', JStr ''select'')]])]])])])])\<rparr>,
        examplePlugin\<lparr>pdSent := [listUsersRequest examplePlugin]\<rparr>)
   \<and> HandleIncidentAction examplePlugin (actionRequest [] ''{}'') ''INC1'' ''launch_missiles''
     = (\<lparr>res_StatusCode = 401, res_Body = TextBody ''Not authorized''\<rparr>, examplePlugin)"
proof -
  have user: "req_Header (actionRequest ''u1'' b) ''Mattermost-User-ID'' \<noteq> []" for b
    by (simp add: actionRequest_sel)
  have payload: "decodeActionBody (lib examplePlugin) (req_Body (actionRequest ''u1'' ''{}''))
      = Inr zeroIncidentActionPayload"
    "decodeActionBody (lib examplePlugin) (req_Body (actionRequest ''u1'' fetchUsersBody))
      = Inr (zeroIncidentActionPayload\<lparr>act_AssigneeID := ''fetch_users''\<rparr>)"
    by (simp_all add: actionRequest_sel examplePlugin_sel example_decodeActionBody)
  have getUser: "GetUser examplePlugin (req_Header (actionRequest ''u1'' b) ''Mattermost-User-ID'')
      = Inr \<lparr>mm_Id = ''u1'', mm_Email = ''a@example.com''\<rparr>" for b
    by (simp add: actionRequest_sel examplePlugin_sel)
  have users: "fst (ListUsers examplePlugin)
      = Inr [\<lparr>usr_ID = ''PU1'', usr_Name = ''Alice'', usr_Email = []\<rparr>,
             \<lparr>usr_ID = ''PU2'', usr_Name = ''Bob'', usr_Email = []\<rparr>]"
    by (rule ListUsers_eval) (simp_all add: examplePlugin_sel)
  have sentinel: "act_AssigneeID (zeroIncidentActionPayload\<lparr>act_AssigneeID := ''fetch_users''\<rparr>)
      = ''fetch_users''"
    by simp
  have anonymous: "req_Header (actionRequest [] ''{}'') ''Mattermost-User-ID'' = []"
    by (simp add: actionRequest_sel)
  note t1 = C8_action_validation [where action = "''launch_missiles''" and p = examplePlugin
      and r = "actionRequest ''u1'' ''{}''" and incidentID = "''INC1''"
      and payload = zeroIncidentActionPayload
      and user = "\<lparr>mm_Id = ''u1'', mm_Email = ''a@example.com''\<rparr>",
      THEN conjunct2, THEN conjunct2, THEN conjunct2]
  note t2 = C8_action_validation [where p = examplePlugin
      and r = "actionRequest ''u1'' fetchUsersBody" and incidentID = "''INC1''"
      and payload = "zeroIncidentActionPayload\<lparr>act_AssigneeID := ''fetch_users''\<rparr>"
      and user = "\<lparr>mm_Id = ''u1'', mm_Email = ''a@example.com''\<rparr>"
      and users = "[\<lparr>usr_ID = ''PU1'', usr_Name = ''Alice'', usr_Email = []\<rparr>,
        \<lparr>usr_ID = ''PU2'', usr_Name = ''Bob'', usr_Email = []\<rparr>]",
      THEN conjunct2, THEN conjunct2, THEN conjunct2]
  note t3 = C8_action_validation [where action = "''launch_missiles''" and p = examplePlugin
      and r = "actionRequest [] ''{}''" and incidentID = "''INC1''", THEN conjunct1]
  have a: "HandleIncidentAction examplePlugin (actionRequest ''u1'' ''{}'') ''INC1'' ''launch_missiles''
     = (\<lparr>res_StatusCode = 400, res_Body = TextBody ''Invalid action''\<rparr>, examplePlugin)"
    using t1 user payload(1) getUser by simp
  have b: "HandleIncidentAction examplePlugin (actionRequest ''u1'' fetchUsersBody) ''INC1'' ''reassign''
     = (\<lparr>res_StatusCode = 200,
         res_Body = JSONBody
           (JObj [(''update'',
             JObj [(''props'',
               JObj [(''attachments'',
                 JArr [JObj [(''actions'',
                   JArr [JObj [(''id'', JStr ''reassign''),
                               (''name'', JStr ''Reassign''),
                               (''options'',
                                JArr [JObj [(''text'', JStr ''Alice''), (''value'', JStr ''PU1'')],
                                      JObj [(''text'', JStr ''Bob''), (''value'', JStr ''PU2'')]]),
                               (''type'', JStr ''select'')]])]])])])])\<rparr>,
        examplePlugin\<lparr>pdSent := [listUsersRequest examplePlugin]\<rparr>)"
    using t2 user payload(2) getUser users sentinel
    by (simp add: prod_eq_iff examplePlugin_sel)
  have c: "HandleIncidentAction examplePlugin (actionRequest [] ''{}'') ''INC1'' ''launch_missiles''
     = (\<lparr>res_StatusCode = 401, res_Body = TextBody ''Not authorized''\<rparr>, examplePlugin)"
    using t3 anonymous by simp
  from a b c show ?thesis by simp
qed

text \<open>
  The claim as stated fails for a request whose user cannot be looked up: the action
  "launch_missiles" is answered 500 "Failed to get user", not "Invalid action", and a
  reassign request with the assignee \<open>fetch_users\<close> is answered the same and sends
  no request for the users list.
\<close>

theorem C8_action_validation_counterexample:
  "''launch_missiles'' \<notin> {''acknowledge'', ''resolve'', ''reassign''}
   \<and> HandleIncidentAction examplePlugin (actionRequest ''nobody'' ''{}'') ''INC1''
        ''launch_missiles''
     = (\<lparr>res_StatusCode = 500, res_Body = TextBody ''Failed to get user''\<rparr>, examplePlugin)
   \<and> fst (HandleIncidentAction examplePlugin (actionRequest ''nobody'' ''{}'') ''INC1''
        ''launch_missiles'')
     \<noteq> \<lparr>res_StatusCode = 400, res_Body = TextBody ''Invalid action''\<rparr>
   \<and> decodeActionBody (lib examplePlugin) (req_Body (actionRequest ''nobody'' fetchUsersBody))
     = Inr (zeroIncidentActionPayload\<lparr>act_AssigneeID := ''fetch_users''\<rparr>)
   \<and> HandleIncidentAction examplePlugin (actionRequest ''nobody'' fetchUsersBody) ''INC1''
        ''reassign''
     = (\<lparr>res_StatusCode = 500, res_Body = TextBody ''Failed to get user''\<rparr>, examplePlugin)
   \<and> pdSent (snd (HandleIncidentAction examplePlugin (actionRequest ''nobody'' fetchUsersBody)
        ''INC1'' ''reassign'')) = []"
proof -
  have lookup: "GetUser examplePlugin ''nobody'' = Inl ''user not found''"
    by (simp add: examplePlugin_def)
  have payload: "decodeActionBody (lib examplePlugin) (Some ''{}'') = Inr zeroIncidentActionPayload"
    "decodeActionBody (lib examplePlugin) (Some fetchUsersBody)
      = Inr (zeroIncidentActionPayload\<lparr>act_AssigneeID := ''fetch_users''\<rparr>)"
    by (simp_all add: examplePlugin_sel example_decodeActionBody)
  have a: "HandleIncidentAction examplePlugin (actionRequest ''nobody'' ''{}'') ''INC1''
        ''launch_missiles''
     = (\<lparr>res_StatusCode = 500, res_Body = TextBody ''Failed to get user''\<rparr>, examplePlugin)"
    by (simp add: HandleIncidentAction_def Let_def actionRequest_sel payload lookup
        httpError_def)
  have b: "HandleIncidentAction examplePlugin (actionRequest ''nobody'' fetchUsersBody) ''INC1''
        ''reassign''
     = (\<lparr>res_StatusCode = 500, res_Body = TextBody ''Failed to get user''\<rparr>, examplePlugin)"
    by (simp add: HandleIncidentAction_def Let_def actionRequest_sel payload lookup
        httpError_def)
  show ?thesis
    unfolding a b
    by (simp add: actionRequest_sel examplePlugin_sel example_decodeActionBody)
qed

section \<open>C9: the action set of a notification\<close>

lemma getIncidentActions_kinds:
  "map (\<lambda>a. (pa_Id a, pa_Type a)) (getIncidentActions incident)
      = (if inc_Status incident = ''triggered'' then [(''acknowledge'', ''button'')] else [])
        @ (if inc_Status incident \<noteq> ''resolved'' then [(''resolve'', ''button'')] else [])
        @ [(''reassign'', ''select'')]"
  by (simp add: getIncidentActions_def ActionAcknowledge_def ActionResolve_def
      ActionReassign_def StatusTriggered_def StatusResolved_def)

lemma createIncidentProps_attachments:
  "length (pp_attachments (createIncidentProps p incident)) = 1"
  "sa_Actions (hd (pp_attachments (createIncidentProps p incident))) = getIncidentActions incident"
  by (simp_all add: createIncidentProps_def Let_def)

text \<open>
  C9.  For every incident snapshot, the notification rendered by \<open>createIncidentProps\<close>
  has one attachment, and the actions of that attachment contain the acknowledge button
  exactly when the status is "triggered", contain the resolve button exactly when the
  status is not "resolved", and always contain the reassign selector: they are, in this
  order, the acknowledge button if triggered, the resolve button unless resolved, and the
  reassign selector.  These are the properties of the post that \<open>createIncidentPost\<close>
  builds for the incident.
\<close>

theorem C9_action_set:
  "length (pp_attachments (createIncidentProps p incident)) = 1
   \<and> ((ActionAcknowledge, ''button'')
         \<in> set (map (\<lambda>a. (pa_Id a, pa_Type a))
                  (sa_Actions (hd (pp_attachments (createIncidentProps p incident)))))
      = (inc_Status incident = ''triggered''))
   \<and> ((ActionResolve, ''button'')
         \<in> set (map (\<lambda>a. (pa_Id a, pa_Type a))
                  (sa_Actions (hd (pp_attachments (createIncidentProps p incident)))))
      = (inc_Status incident \<noteq> ''resolved''))
   \<and> (ActionReassign, ''select'')
         \<in> set (map (\<lambda>a. (pa_Id a, pa_Type a))
                  (sa_Actions (hd (pp_attachments (createIncidentProps p incident)))))
   \<and> map (\<lambda>a. (pa_Id a, pa_Type a))
        (sa_Actions (hd (pp_attachments (createIncidentProps p incident))))
      = (if inc_Status incident = ''triggered'' then [(''acknowledge'', ''button'')] else [])
        @ (if inc_Status incident \<noteq> ''resolved'' then [(''resolve'', ''button'')] else [])
        @ [(''reassign'', ''select'')]
   \<and> post_Props (createIncidentPost p incident channelID) = createIncidentProps p incident"
  unfolding createIncidentProps_attachments getIncidentActions_kinds
  by (simp add: ActionAcknowledge_def ActionResolve_def ActionReassign_def
      createIncidentPost_def)

text \<open>The notifications of an acknowledged, a triggered and a resolved incident.\<close>

theorem C9_action_set_witness:
  "map pa_Id (sa_Actions (hd (pp_attachments (createIncidentProps examplePlugin
       (zeroIncident\<lparr>inc_ID := ''INC1'', inc_Status := ''acknowledged''\<rparr>)))))
     = [''resolve'', ''reassign'']
   \<and> map pa_Id (sa_Actions (hd (pp_attachments (createIncidentProps examplePlugin
       (zeroIncident\<lparr>inc_ID := ''INC1'', inc_Status := ''triggered''\<rparr>)))))
     = [''acknowledge'', ''resolve'', ''reassign'']
   \<and> map pa_Id (sa_Actions (hd (pp_attachments (createIncidentProps examplePlugin
       (zeroIncident\<lparr>inc_ID := ''INC1'', inc_Status := ''resolved''\<rparr>)))))
     = [''reassign'']"
proof -
  have ids: "map pa_Id xs = map fst (map (\<lambda>a. (pa_Id a, pa_Type a)) xs)"
    for xs :: "PostAction list"
    by (simp add: comp_def)
  show ?thesis
    unfolding ids
    using C9_action_set [of examplePlugin
        "zeroIncident\<lparr>inc_ID := ''INC1'', inc_Status := ''acknowledged''\<rparr>"]
      C9_action_set [of examplePlugin
        "zeroIncident\<lparr>inc_ID := ''INC1'', inc_Status := ''triggered''\<rparr>"]
      C9_action_set [of examplePlugin
        "zeroIncident\<lparr>inc_ID := ''INC1'', inc_Status := ''resolved''\<rparr>"]
    by (simp add: zeroIncident_def)
qed

section \<open>C10: signatures without the v1 prefix\<close>

text \<open>
  C10.  For every readable body and secret whose digest has the 32 bytes of a SHA-256
  output: a header that does not start with \<open>v1=\<close> is compared as it is, so it
  verifies exactly when it equals the hex digest; the bare hex digest verifies; and the
  digest behind any other non-empty prefix is an invalid signature.
\<close>

theorem C10_bare_digest_accepted:
  assumes "req_Body r = Some body"
    and "length (hmacSHA256 (lib p) secret body) = 32"
  shows "(\<not> HasPrefix (req_Header r ''X-Pagerduty-Signature'') ''v1='' \<longrightarrow>
            (verifyWebhookSignature p r secret = None \<longleftrightarrow>
               req_Header r ''X-Pagerduty-Signature'' = hexDigest (lib p) secret body))
       \<and> (req_Header r ''X-Pagerduty-Signature'' = hexDigest (lib p) secret body \<longrightarrow>
            verifyWebhookSignature p r secret = None)
       \<and> (pre \<noteq> [] \<and> pre \<noteq> ''v1=''
            \<and> req_Header r ''X-Pagerduty-Signature'' = pre @ hexDigest (lib p) secret body \<longrightarrow>
            verifyWebhookSignature p r secret = Some ''invalid signature'')"
proof -
  have iff: "verifyWebhookSignature p r secret = None \<longleftrightarrow>
      req_Header r ''X-Pagerduty-Signature'' \<noteq> []
      \<and> TrimPrefix (req_Header r ''X-Pagerduty-Signature'') ''v1=''
          = hexDigest (lib p) secret body"
    using assms(1) by (rule verifyWebhookSignature_iff)
  have as_is: "\<not> HasPrefix (req_Header r ''X-Pagerduty-Signature'') ''v1='' \<longrightarrow>
      (verifyWebhookSignature p r secret = None \<longleftrightarrow>
         req_Header r ''X-Pagerduty-Signature'' = hexDigest (lib p) secret body)"
    unfolding iff using encoded_not_empty [OF assms(2)] by (auto simp add: TrimPrefix_def)
  have bare: "req_Header r ''X-Pagerduty-Signature'' = hexDigest (lib p) secret body \<longrightarrow>
      verifyWebhookSignature p r secret = None"
    using as_is encoded_no_v1 [OF assms(2)] by auto
  have err: "verifyWebhookSignature p r secret \<noteq> None \<Longrightarrow>
      req_Header r ''X-Pagerduty-Signature'' \<noteq> [] \<Longrightarrow>
      verifyWebhookSignature p r secret = Some ''invalid signature''"
    using assms(1)
    by (simp add: verifyWebhookSignature_def Let_def split: if_splits)
  have prefixed: "pre \<noteq> [] \<and> pre \<noteq> ''v1=''
      \<and> req_Header r ''X-Pagerduty-Signature'' = pre @ hexDigest (lib p) secret body \<longrightarrow>
      verifyWebhookSignature p r secret = Some ''invalid signature''"
  proof (intro impI, elim conjE)
    assume a: "pre \<noteq> []" "pre \<noteq> ''v1=''"
      "req_Header r ''X-Pagerduty-Signature'' = pre @ hexDigest (lib p) secret body"
    then have "verifyWebhookSignature p r secret \<noteq> None"
      unfolding iff using TrimPrefix_other [OF a(1,2)] by simp
    then show "verifyWebhookSignature p r secret = Some ''invalid signature''"
      using err a by simp
  qed
  from as_is bare prefixed show ?thesis by blast
qed

text \<open>The bare digest, and the digest behind \<open>v2=\<close>, with the stand-in digest.\<close>

theorem C10_bare_digest_witness:
  "verifyWebhookSignature examplePlugin
       (signedRequest (hexDigest exampleLib ''s3cret'' ''{}'') ''{}'') ''s3cret'' = None
   \<and> verifyWebhookSignature examplePlugin
       (signedRequest (''v2='' @ hexDigest exampleLib ''s3cret'' ''{}'') ''{}'') ''s3cret''
      = Some ''invalid signature''"
proof -
  have len: "length (hmacSHA256 (lib examplePlugin) ''s3cret'' ''{}'') = 32"
    by (simp add: exampleDigest_facts)
  note t = C10_bare_digest_accepted [OF signedRequest_sel(1) len, where pre = "''v2=''"]
  have "verifyWebhookSignature examplePlugin
       (signedRequest (hexDigest exampleLib ''s3cret'' ''{}'') ''{}'') ''s3cret'' = None"
    using t [of "hexDigest exampleLib ''s3cret'' ''{}''", THEN conjunct2, THEN conjunct1]
    by (simp only: signedRequest_sel exampleDigest_facts(1) simp_thms)
  moreover have "verifyWebhookSignature examplePlugin
       (signedRequest (''v2='' @ hexDigest exampleLib ''s3cret'' ''{}'') ''{}'') ''s3cret''
      = Some ''invalid signature''"
    using t [of "''v2='' @ hexDigest exampleLib ''s3cret'' ''{}''", THEN conjunct2, THEN conjunct2]
    by (simp add: signedRequest_sel exampleDigest_facts(1))
  ultimately show ?thesis by simp
qed

end
